theory Spec2Isabelle
  imports Complex_Main
begin

section \<open>Excel Mock Interviewer: the scorer, the phase machine and the conversation driver\<close>

text \<open>
  A shallow embedding of \<^verbatim>\<open>app.py\<close>. Every definition carries the name of the Python
  function (or of the block of a function) it is translated from.

  Conventions.
  \<^item> A Python \<^verbatim>\<open>str\<close> is an Isabelle \<open>string\<close>, read as a sequence of code points in the
    range 0..255 (the Latin-1 block): \<open>length\<close> counts code points, as \<^verbatim>\<open>len\<close> does.
  \<^item> A value that comes out of the JSON question document is a \<open>pyval\<close>; a \<^verbatim>\<open>dict\<close> with
    string keys is an association list, looked up with \<open>map_of\<close> (the first binding of a
    key is the stored one).
  \<^item> Python \<^verbatim>\<open>int\<close> is \<open>int\<close>. A \<^verbatim>\<open>float\<close> is the rational number it holds, and
    arithmetic on floats rounds to binary64. The sub-scores of the advanced scorer are
    integers and their sum divided by 4 is exact in binary64. A score rounded to one
    decimal is written as that decimal number.
  \<^item> A code point above 255 occurs only in the report (the bullet, the capitals of two
    letters) and is written as its UTF-8 bytes.
  \<^item> An exception is a value of type \<open>error\<close>; a block that can raise returns \<open>error + 'a\<close>.
  \<^item> \<^verbatim>\<open>datetime.now()\<close> is not modelled: the \<^verbatim>\<open>timestamp\<close> of a message is written once
    and read by no function of the agent.
  \<^item> The HTTP service and the interpreter's rendering of values that are not strings are
    parameters of the model, collected in an \<open>environment\<close>.
  \<^item> The functions are modelled as they run when called within one run of the
    interpreter: the phases are the members of one enumeration and compare as such.
\<close>

subsection \<open>Strings\<close>

definition isspace :: "char \<Rightarrow> bool" where
  \<comment> \<open>the code points below 256 that \<^verbatim>\<open>str.split()\<close> and \<^verbatim>\<open>str.strip()\<close> treat as whitespace\<close>
  "isspace c = (let n = (of_char c :: nat) in
     (9 \<le> n \<and> n \<le> 13) \<or> (28 \<le> n \<and> n \<le> 32) \<or> n = 133 \<or> n = 160)"

definition char_lower :: "char \<Rightarrow> char" where
  \<comment> \<open>\<^verbatim>\<open>str.lower()\<close> on one code point below 256: A-Z and the accented capitals
      0xC0-0xDE (the multiplication sign 0xD7 apart) move up by 32\<close>
  "char_lower c = (let n = (of_char c :: nat) in
     if (65 \<le> n \<and> n \<le> 90) \<or> (192 \<le> n \<and> n \<le> 222 \<and> n \<noteq> 215)
     then char_of (n + 32) else c)"

definition lower :: "string \<Rightarrow> string" where
  "lower s = map char_lower s"

fun startswith :: "string \<Rightarrow> string \<Rightarrow> bool" where
  "startswith s [] = True"
| "startswith [] (c # t) = False"
| "startswith (d # s) (c # t) = (c = d \<and> startswith s t)"

fun str_in :: "string \<Rightarrow> string \<Rightarrow> bool" where
  \<comment> \<open>\<^verbatim>\<open>t in s\<close>\<close>
  "str_in t [] = (t = [])"
| "str_in t (c # s) = (startswith (c # s) t \<or> str_in t s)"

definition any_in :: "string list \<Rightarrow> string \<Rightarrow> bool" where
  \<comment> \<open>\<^verbatim>\<open>any(term in s for term in terms)\<close>\<close>
  "any_in terms s = list_ex (\<lambda>t. str_in t s) terms"

fun split_from :: "string \<Rightarrow> string \<Rightarrow> string list" where
  \<comment> \<open>the first argument is the word read so far\<close>
  "split_from w [] = (if w = [] then [] else [w])"
| "split_from w (c # cs) =
     (if isspace c then (if w = [] then split_from [] cs else w # split_from [] cs)
      else split_from (w @ [c]) cs)"

definition split :: "string \<Rightarrow> string list" where
  \<comment> \<open>\<^verbatim>\<open>s.split()\<close>: the maximal runs of non-whitespace\<close>
  "split s = split_from [] s"

definition strip :: "string \<Rightarrow> string" where
  "strip s = rev (dropWhile isspace (rev (dropWhile isspace s)))"

definition count_char :: "string \<Rightarrow> char \<Rightarrow> nat" where
  \<comment> \<open>\<^verbatim>\<open>s.count(c)\<close> for a one-character pattern\<close>
  "count_char s c = length (filter (\<lambda>d. d = c) s)"

subsection \<open>Python values, dictionaries and exceptions\<close>

datatype pyval =
    PNone
  | PBool bool
  | PNum rat
  | PStr string
  | PList "pyval list"
  | PDict "(string \<times> pyval) list"

type_synonym pydict = "(string \<times> pyval) list"

datatype error = AttributeError | KeyError | TypeError

fun truthy :: "pyval \<Rightarrow> bool" where
  "truthy PNone = False"
| "truthy (PBool b) = b"
| "truthy (PNum x) = (x \<noteq> 0)"
| "truthy (PStr s) = (s \<noteq> [])"
| "truthy (PList xs) = (xs \<noteq> [])"
| "truthy (PDict d) = (d \<noteq> [])"

definition dict_get :: "pydict \<Rightarrow> string \<Rightarrow> pyval \<Rightarrow> pyval" where
  \<comment> \<open>\<^verbatim>\<open>d.get(k, default)\<close>\<close>
  "dict_get d k dflt = (case map_of d k of None \<Rightarrow> dflt | Some v \<Rightarrow> v)"

definition dict_item :: "pydict \<Rightarrow> string \<Rightarrow> error + pyval" where
  \<comment> \<open>\<^verbatim>\<open>d[k]\<close>\<close>
  "dict_item d k = (case map_of d k of None \<Rightarrow> Inl KeyError | Some v \<Rightarrow> Inr v)"

fun val_lower :: "pyval \<Rightarrow> error + string" where
  \<comment> \<open>\<^verbatim>\<open>v.lower()\<close>: only a \<^verbatim>\<open>str\<close> has the method\<close>
  "val_lower (PStr s) = Inr (lower s)"
| "val_lower v = Inl AttributeError"

subsection \<open>Data model\<close>

datatype InterviewPhase =
    GREETING | WARMUP | CORE_SKILLS | SCENARIO_BASED | TROUBLESHOOTING | WRAPUP | FEEDBACK

fun phase_value :: "InterviewPhase \<Rightarrow> string" where
  "phase_value GREETING = ''greeting''"
| "phase_value WARMUP = ''warmup''"
| "phase_value CORE_SKILLS = ''core_skills''"
| "phase_value SCENARIO_BASED = ''scenario_based''"
| "phase_value TROUBLESHOOTING = ''troubleshooting''"
| "phase_value WRAPUP = ''wrapup''"
| "phase_value FEEDBACK = ''feedback''"

text \<open>The dictionary returned by the two evaluators; \<open>evaluation_type\<close> is \<open>None\<close> where
  the key is absent.\<close>

record EvaluationResult =
  score :: rat
  reasoning :: string
  strengths :: "string list"
  areas_for_improvement :: "string list"
  evaluation_type :: "string option"

subsection \<open>The advanced scorer: \<^verbatim>\<open>_ai_evaluate_response\<close>\<close>

text \<open>The local variables of the scorer.\<close>

record scoring =
  technical_accuracy :: int
  completeness :: int
  clarity :: int
  excel_knowledge :: int
  reasoning_v :: "string list"
  strengths_v :: "string list"
  areas_for_improvement_v :: "string list"

definition initial_scoring :: scoring where
  "initial_scoring = \<lparr>technical_accuracy = 0, completeness = 0, clarity = 0,
     excel_knowledge = 0, reasoning_v = [], strengths_v = [], areas_for_improvement_v = []\<rparr>"

definition technical_scoring :: "string \<Rightarrow> scoring \<Rightarrow> scoring" where
  \<comment> \<open>lines 155-166\<close>
  "technical_scoring response_lower v0 =
    (let v1 = (if any_in [''function'', ''formula'', ''cell'', ''range'', ''data''] response_lower
               then v0\<lparr>technical_accuracy := technical_accuracy v0 + 3,
                       strengths_v := strengths_v v0 @ [''Uses Excel terminology correctly'']\<rparr>
               else v0);
         v2 = (if any_in [''='', ''sum'', ''count'', ''average'', ''vlookup'', ''index'', ''match'']
                    response_lower
               then v1\<lparr>technical_accuracy := technical_accuracy v1 + 4,
                       strengths_v := strengths_v v1 @ [''Demonstrates knowledge of Excel functions'']\<rparr>
               else v1)
     in if str_in ''pivot'' response_lower \<or> str_in ''table'' response_lower
        then v2\<lparr>technical_accuracy := technical_accuracy v2 + 2,
                strengths_v := strengths_v v2 @ [''Shows understanding of data analysis tools'']\<rparr>
        else v2)"

definition completeness_scoring :: "string \<Rightarrow> scoring \<Rightarrow> scoring" where
  \<comment> \<open>lines 168-177\<close>
  "completeness_scoring response v =
    (let word_count = length (split response)
     in if word_count > 50
        then v\<lparr>completeness := completeness v + 4,
               strengths_v := strengths_v v @ [''Provides comprehensive answer'']\<rparr>
        else if word_count > 20
        then v\<lparr>completeness := completeness v + 2\<rparr>
        else v\<lparr>areas_for_improvement_v := areas_for_improvement_v v @ [''Could provide more detail''],
               completeness := completeness v + 1\<rparr>)"

definition clarity_scoring :: "string \<Rightarrow> string \<Rightarrow> scoring \<Rightarrow> scoring" where
  \<comment> \<open>lines 179-186\<close>
  "clarity_scoring response response_lower v0 =
    (let v1 = (if count_char response (CHR ''.'') > 1
               then v0\<lparr>clarity := clarity v0 + 2,
                       strengths_v := strengths_v v0 @ [''Well-structured response'']\<rparr>
               else v0)
     in if any_in [''example'', ''for instance'', ''such as''] response_lower
        then v1\<lparr>clarity := clarity v1 + 2,
                strengths_v := strengths_v v1 @ [''Provides examples'']\<rparr>
        else v1)"

definition excel_terms :: "string list" where
  "excel_terms = [''excel'', ''spreadsheet'', ''worksheet'', ''workbook'', ''formula'', ''function'']"

definition excel_knowledge_scoring :: "string \<Rightarrow> scoring \<Rightarrow> scoring" where
  \<comment> \<open>lines 188-194\<close>
  "excel_knowledge_scoring response_lower v0 =
    (let excel_term_count = int (length (filter (\<lambda>t. str_in t response_lower) excel_terms));
         v1 = v0\<lparr>excel_knowledge := min 5 excel_term_count\<rparr>
     in if excel_knowledge v1 > 2
        then v1\<lparr>strengths_v := strengths_v v1 @ [''Demonstrates Excel expertise'']\<rparr>
        else v1)"

definition phase_specific_scoring :: "InterviewPhase \<Rightarrow> string \<Rightarrow> scoring \<Rightarrow> scoring" where
  \<comment> \<open>lines 196-208\<close>
  "phase_specific_scoring phase response_lower v =
    (if phase_value phase = ''warmup''
     then (if any_in [''experience'', ''years'', ''used'', ''familiar''] response_lower
           then v\<lparr>technical_accuracy := technical_accuracy v + 2\<rparr> else v)
     else if phase_value phase = ''core_skills''
     then (if any_in [''vlookup'', ''index'', ''match'', ''sumif'', ''countif''] response_lower
           then v\<lparr>technical_accuracy := technical_accuracy v + 3\<rparr> else v)
     else if phase_value phase = ''scenario_based''
     then (if any_in [''analyze'', ''pivot'', ''filter'', ''sort''] response_lower
           then v\<lparr>technical_accuracy := technical_accuracy v + 3\<rparr> else v)
     else if phase_value phase = ''troubleshooting''
     then (if any_in [''error'', ''fix'', ''debug'', ''check''] response_lower
           then v\<lparr>technical_accuracy := technical_accuracy v + 3\<rparr> else v)
     else v)"

definition sub_scores :: "string \<Rightarrow> InterviewPhase \<Rightarrow> scoring" where
  \<comment> \<open>the local variables when line 210 is reached\<close>
  "sub_scores response phase =
    (let response_lower = lower response
     in phase_specific_scoring phase response_lower
         (excel_knowledge_scoring response_lower
           (clarity_scoring response response_lower
             (completeness_scoring response
               (technical_scoring response_lower initial_scoring)))))"

definition round_half_even :: "rat \<Rightarrow> int" where
  \<comment> \<open>the nearest integer, a tie going to the even one\<close>
  "round_half_even y =
    (let f = \<lfloor>y\<rfloor>; d = y - of_int f
     in if d < 1/2 then f else if d > 1/2 then f + 1
        else if even f then f else f + 1)"

definition round1 :: "rat \<Rightarrow> rat" where
  \<comment> \<open>\<^verbatim>\<open>round(x, 1)\<close>: the nearest multiple of 1/10, a tie going to the even last digit\<close>
  "round1 x = of_int (round_half_even (x * 10)) / 10"

definition total_score :: "scoring \<Rightarrow> rat" where
  \<comment> \<open>line 211\<close>
  "total_score v =
     of_int (technical_accuracy v + completeness v + clarity v + excel_knowledge v) / 4"

definition final_score :: "scoring \<Rightarrow> rat" where
  \<comment> \<open>line 212\<close>
  "final_score v = min 10 (max 1 (total_score v))"

definition generate_reasoning :: "scoring \<Rightarrow> scoring" where
  \<comment> \<open>lines 214-223\<close>
  "generate_reasoning v =
    (if final_score v \<ge> 8
     then v\<lparr>reasoning_v := reasoning_v v @ [''Excellent response demonstrating strong Excel knowledge'']\<rparr>
     else if final_score v \<ge> 6
     then v\<lparr>reasoning_v := reasoning_v v @ [''Good response with solid Excel understanding'']\<rparr>
     else if final_score v \<ge> 4
     then v\<lparr>reasoning_v := reasoning_v v @ [''Basic response showing some Excel knowledge'']\<rparr>
     else v\<lparr>reasoning_v := reasoning_v v @ [''Response needs improvement in technical detail''],
            areas_for_improvement_v := areas_for_improvement_v v @
              [''Focus on Excel-specific terminology and examples'']\<rparr>)"

fun join :: "string \<Rightarrow> string list \<Rightarrow> string" where
  \<comment> \<open>\<^verbatim>\<open>sep.join(xs)\<close>\<close>
  "join sep [] = []"
| "join sep [x] = x"
| "join sep (x # y # xs) = x @ sep @ join sep (y # xs)"

definition advanced_evaluation :: "pydict \<Rightarrow> string \<Rightarrow> InterviewPhase \<Rightarrow> error + EvaluationResult" where
  \<comment> \<open>the body of the \<^verbatim>\<open>try\<close> of \<^verbatim>\<open>_ai_evaluate_response\<close>, lines 142-231; the only
      operation of it that can raise on a \<^verbatim>\<open>str\<close> response is \<^verbatim>\<open>.lower()\<close> on the
      question text, line 144\<close>
  "advanced_evaluation question response phase =
    (case val_lower (dict_get question ''question'' (PStr [])) of
       Inl e \<Rightarrow> Inl e
     | Inr question_text \<Rightarrow>
        (let v = generate_reasoning (sub_scores response phase)
         in Inr \<lparr>score = round1 (final_score v),
                 reasoning = join ''. '' (reasoning_v v),
                 strengths = (if strengths_v v \<noteq> [] then strengths_v v else [''Attempted to answer'']),
                 areas_for_improvement = (if areas_for_improvement_v v \<noteq> []
                    then areas_for_improvement_v v else [''Provide more technical detail'']),
                 evaluation_type = Some ''advanced''\<rparr>))"

subsection \<open>Binary floating point\<close>

text \<open>
  A \<^verbatim>\<open>float\<close> is the rational number it holds. \<open>double x\<close> is the binary64 number
  nearest to \<open>x\<close>, a tie going to the even significand of 53 bits; the numbers of the
  program lie far inside the range of the normal binary64 numbers, so overflow and
  subnormal numbers are left out. An arithmetic operation on floats is the exact operation
  followed by \<open>double\<close>. The result of \<^verbatim>\<open>round(x, 1)\<close> is written as the decimal number it
  prints; \<open>double\<close> of that number is the float it is.
\<close>

function bit_length :: "int \<Rightarrow> int" where
  \<comment> \<open>the number of binary digits of a positive integer\<close>
  "bit_length n = (if n \<le> 0 then 0 else 1 + bit_length (n div 2))"
  by pat_completeness auto
termination
  by (relation "measure nat") auto

definition scale2 :: "rat \<Rightarrow> int \<Rightarrow> rat" where
  \<comment> \<open>\<open>x\<close> times 2 to the power \<open>k\<close>\<close>
  "scale2 x k = (if k \<ge> 0 then x * of_int (2 ^ nat k) else x / of_int (2 ^ nat (- k)))"

definition binary_exponent :: "rat \<Rightarrow> int" where
  \<comment> \<open>for \<open>a > 0\<close>, the integer \<open>l\<close> with \<open>2 ^ l \<le> a < 2 ^ (l + 1)\<close>\<close>
  "binary_exponent a =
    (if 1 \<le> a then bit_length \<lfloor>a\<rfloor> - 1
     else (let b = 1 / a; l = bit_length \<lfloor>b\<rfloor> - 1
           in if of_int (2 ^ nat l) = b then - l else - l - 1))"

definition double :: "rat \<Rightarrow> rat" where
  "double x =
    (if x = 0 then 0
     else (let e = binary_exponent \<bar>x\<bar> - 52;
               m = round_half_even (scale2 \<bar>x\<bar> (- e))
           in sgn x * scale2 (of_int m) e))"

definition float_add :: "rat \<Rightarrow> rat \<Rightarrow> rat" where
  \<comment> \<open>\<^verbatim>\<open>a + b\<close> on floats\<close>
  "float_add a b = double (a + b)"

definition float_mul :: "rat \<Rightarrow> rat \<Rightarrow> rat" where
  \<comment> \<open>\<^verbatim>\<open>a * b\<close> on floats\<close>
  "float_mul a b = double (a * b)"

definition float_div :: "rat \<Rightarrow> nat \<Rightarrow> rat" where
  \<comment> \<open>\<^verbatim>\<open>a / n\<close> for a float and the length of a list\<close>
  "float_div a n = double (a / of_nat n)"

definition float_sum :: "rat list \<Rightarrow> rat" where
  \<comment> \<open>\<^verbatim>\<open>sum(xs)\<close> for a list of results of \<^verbatim>\<open>round(x, 1)\<close>: the items are added from
      left to right, each addition rounded\<close>
  "float_sum xs = foldl (\<lambda>total x. float_add total (double x)) 0 xs"

subsection \<open>The basic scorer: \<^verbatim>\<open>_rule_based_evaluate_response\<close>\<close>

text \<open>The local variables of the basic scorer.\<close>

record basic_scoring =
  score_b :: rat
  reasoning_b :: "string list"
  strengths_b :: "string list"
  areas_for_improvement_b :: "string list"

definition initial_basic_scoring :: basic_scoring where
  "initial_basic_scoring =
     \<lparr>score_b = 0, reasoning_b = [], strengths_b = [], areas_for_improvement_b = []\<rparr>"

definition response_quality :: "string \<Rightarrow> basic_scoring \<Rightarrow> basic_scoring" where
  \<comment> \<open>lines 249-260\<close>
  "response_quality response b =
    (let n = length (strip response)
     in if n < 10
        then b\<lparr>score_b := float_add (score_b b) 1,
               reasoning_b := reasoning_b b @ [''Very short response''],
               areas_for_improvement_b := areas_for_improvement_b b @ [''Provide more detailed answers'']\<rparr>
        else if n < 30
        then b\<lparr>score_b := float_add (score_b b) 2,
               reasoning_b := reasoning_b b @ [''Short response'']\<rparr>
        else if n > 50
        then b\<lparr>score_b := float_add (score_b b) 3,
               reasoning_b := reasoning_b b @ [''Detailed response''],
               strengths_b := strengths_b b @ [''Provides comprehensive answer'']\<rparr>
        else b)"

definition topic_check ::
  "string list \<Rightarrow> string \<Rightarrow> string \<Rightarrow> string \<Rightarrow> basic_scoring \<Rightarrow> basic_scoring" where
  \<comment> \<open>one branch of lines 263-289: three points and a strength when a term is present,
      an improvement note when none is\<close>
  "topic_check terms strength note response_lower b =
    (if any_in terms response_lower
     then b\<lparr>score_b := float_add (score_b b) 3, strengths_b := strengths_b b @ [strength]\<rparr>
     else b\<lparr>areas_for_improvement_b := areas_for_improvement_b b @ [note]\<rparr>)"

definition question_content :: "string \<Rightarrow> string \<Rightarrow> basic_scoring \<Rightarrow> basic_scoring" where
  \<comment> \<open>lines 262-289\<close>
  "question_content question_text response_lower b =
    (if str_in ''sum'' question_text
     then topic_check [''add'', ''total'', ''sum'', ''plus'', ''addition'', ''calculate'']
            ''Correctly identifies SUM function purpose''
            ''Should mention adding/totaling numbers'' response_lower b
     else if str_in ''count'' question_text
     then topic_check [''count'', ''number'', ''how many'', ''quantity'', ''items'']
            ''Understands COUNT function purpose''
            ''Should mention counting items'' response_lower b
     else if str_in ''vlookup'' question_text
     then topic_check [''lookup'', ''find'', ''search'', ''match'', ''reference'', ''table'']
            ''Shows understanding of VLOOKUP concept''
            ''Should mention looking up values in tables'' response_lower b
     else if str_in ''pivot'' question_text
     then topic_check [''pivot'', ''table'', ''summarize'', ''group'', ''analyze'', ''data'']
            ''Understands PivotTable functionality''
            ''Should mention data summarization and analysis'' response_lower b
     else b)"

definition count_terms :: "string list \<Rightarrow> string \<Rightarrow> nat" where
  \<comment> \<open>\<^verbatim>\<open>sum(1 for term in terms if term in s)\<close>\<close>
  "count_terms terms s = length (filter (\<lambda>t. str_in t s) terms)"

definition terminology :: "string \<Rightarrow> basic_scoring \<Rightarrow> basic_scoring" where
  \<comment> \<open>lines 291-296\<close>
  "terminology response_lower b =
    (let found_excel_terms = count_terms
           [''excel'', ''spreadsheet'', ''worksheet'', ''workbook'', ''cell'', ''range'', ''formula'']
           response_lower
     in if found_excel_terms > 0
        then b\<lparr>score_b := float_add (score_b b)
                             (min (float_mul (of_nat found_excel_terms) (1/2)) 2),
               strengths_b := strengths_b b @ [''Uses appropriate Excel terminology'']\<rparr>
        else b)"

definition technical_depth :: "string \<Rightarrow> basic_scoring \<Rightarrow> basic_scoring" where
  \<comment> \<open>lines 298-303\<close>
  "technical_depth response_lower b =
    (let found_technical = count_terms
           [''function'', ''formula'', ''data'', ''analysis'', ''business'', ''report'']
           response_lower
     in if found_technical > 0
        then b\<lparr>score_b := float_add (score_b b)
                             (min (float_mul (of_nat found_technical) (double (3/10))) (3/2)),
               strengths_b := strengths_b b @ [''Shows technical understanding'']\<rparr>
        else b)"

definition confidence :: "string \<Rightarrow> basic_scoring \<Rightarrow> basic_scoring" where
  \<comment> \<open>lines 305-309\<close>
  "confidence response_lower b =
    (if any_in [''i think'', ''i believe'', ''i would'', ''i usually'', ''in my experience'',
                ''typically''] response_lower
     then b\<lparr>score_b := float_add (score_b b) (1/2),
            strengths_b := strengths_b b @ [''Shows confidence in response'']\<rparr>
     else b)"

definition clamp_score :: "basic_scoring \<Rightarrow> basic_scoring" where
  \<comment> \<open>line 312\<close>
  "clamp_score b = b\<lparr>score_b := max 1 (min 10 (score_b b))\<rparr>"

definition detailed_reasoning :: "basic_scoring \<Rightarrow> basic_scoring" where
  \<comment> \<open>lines 314-322\<close>
  "detailed_reasoning b =
    (if score_b b \<ge> 8
     then b\<lparr>reasoning_b := reasoning_b b @ [''Excellent technical response with clear understanding'']\<rparr>
     else if score_b b \<ge> 6
     then b\<lparr>reasoning_b := reasoning_b b @ [''Good response demonstrating solid Excel knowledge'']\<rparr>
     else if score_b b \<ge> 4
     then b\<lparr>reasoning_b := reasoning_b b @ [''Basic response showing some understanding'']\<rparr>
     else b\<lparr>reasoning_b := reasoning_b b @
            [''Response needs significant improvement in technical detail'']\<rparr>)"

definition rule_based_evaluation ::
  "pydict \<Rightarrow> string \<Rightarrow> InterviewPhase \<Rightarrow> error + EvaluationResult" where
  \<comment> \<open>the body of the \<^verbatim>\<open>try\<close> of \<^verbatim>\<open>_rule_based_evaluate_response\<close>, lines 240-329\<close>
  "rule_based_evaluation question response phase =
    (let response_lower = lower response
     in case val_lower (dict_get question ''question'' (PStr [])) of
          Inl e \<Rightarrow> Inl e
        | Inr question_text \<Rightarrow>
           (let b = detailed_reasoning (clamp_score
                     (confidence response_lower
                       (technical_depth response_lower
                         (terminology response_lower
                           (question_content question_text response_lower
                             (response_quality response initial_basic_scoring))))))
            in Inr \<lparr>score = round1 (score_b b),
                    reasoning = join ''. '' (reasoning_b b),
                    strengths = (if strengths_b b \<noteq> [] then strengths_b b
                                 else [''Attempted to answer'']),
                    areas_for_improvement = (if areas_for_improvement_b b \<noteq> []
                       then areas_for_improvement_b b else [''Provide more technical detail'']),
                    evaluation_type = None\<rparr>))"

definition neutral_evaluation :: EvaluationResult where
  \<comment> \<open>the \<^verbatim>\<open>except\<close> branch, lines 331-338\<close>
  "neutral_evaluation =
     \<lparr>score = 5, reasoning = ''Basic response evaluation'',
      strengths = [''Responded to question''],
      areas_for_improvement = [''Could provide more technical detail''],
      evaluation_type = None\<rparr>"

definition rule_based_evaluate_response ::
  "pydict \<Rightarrow> string \<Rightarrow> InterviewPhase \<Rightarrow> EvaluationResult" where
  "rule_based_evaluate_response question response phase =
    (case rule_based_evaluation question response phase of
       Inr result \<Rightarrow> result
     | Inl e \<Rightarrow> neutral_evaluation)"

definition ai_evaluate_response ::
  "pydict \<Rightarrow> string \<Rightarrow> InterviewPhase \<Rightarrow> EvaluationResult" where
  \<comment> \<open>\<^verbatim>\<open>_ai_evaluate_response\<close>: the \<^verbatim>\<open>except\<close> branch, lines 233-235, hands over to the
      basic scorer\<close>
  "ai_evaluate_response question response phase =
    (case advanced_evaluation question response phase of
       Inr result \<Rightarrow> result
     | Inl e \<Rightarrow> rule_based_evaluate_response question response phase)"

subsection \<open>Messages, sessions and the agent\<close>

text \<open>
  \<open>question_id\<close> is \<open>PNone\<close> where the constructor leaves it at its default. The
  entries of \<^verbatim>\<open>evaluation_scores\<close> are the dictionaries built at lines 554-558, the only
  place where the list is written.
\<close>

record InterviewMessage =
  role :: string
  content :: pyval
  phase :: InterviewPhase
  question_id :: pyval
  evaluation :: "pydict option"

record score_entry =
  entry_question_id :: pyval
  entry_score :: rat
  entry_phase :: string

record InterviewState =
  candidate_name :: string
  current_phase :: InterviewPhase
  conversation_history :: "InterviewMessage list"
  current_question :: "pydict option"
  evaluation_scores :: "score_entry list"
  start_time :: "nat option"
  metadata :: pydict

text \<open>The attributes that the constructor of the agent assigns, lines 62-66.\<close>

record ExcelInterviewAgent =
  questions :: "(string \<times> pydict list) list"
  model_url :: string
  evaluation_url :: string

definition agent_attribute :: "ExcelInterviewAgent \<Rightarrow> string \<Rightarrow> error + string" where
  \<comment> \<open>reading a string attribute of \<^verbatim>\<open>self\<close>: the instance has the two URLs and nothing
      else, any other name raises\<close>
  "agent_attribute agent name =
    (if name = ''model_url'' then Inr (model_url agent)
     else if name = ''evaluation_url'' then Inr (evaluation_url agent)
     else Inl AttributeError)"

text \<open>
  What lies outside the program: the HTTP service behind \<^verbatim>\<open>requests.post\<close> (\<open>None\<close> when
  the call raises, otherwise the status code and the JSON body, \<open>None\<close> when the body
  does not parse), and the interpreter's rendering \<^verbatim>\<open>str(v)\<close> of values that are not
  strings.
\<close>

datatype http_response = Response nat "pyval option"

record environment =
  http_post :: "string \<Rightarrow> string \<Rightarrow> http_response option"
  str_of :: "pyval \<Rightarrow> string"
  str_of_scores :: "(string \<times> rat list) list \<Rightarrow> string"

subsection \<open>The question bank\<close>

definition get_fallback_questions :: "(string \<times> pydict list) list" where
  \<comment> \<open>lines 102-119\<close>
  "get_fallback_questions =
    [(''warmup'',
       [ [(''id'', PStr ''w1''),
         (''question'', PStr ''What's your experience with Excel? How long have you been using it?''),
         (''type'', PStr ''experience'')],
        [(''id'', PStr ''w2''),
         (''question'', PStr ''Can you walk me through how you would sum a column of numbers?''),
         (''type'', PStr ''basic'')]]),
     (''core_skills'',
       [ [(''id'', PStr ''c1''),
         (''question'', PStr ''How would you use VLOOKUP to find data in a table?''),
         (''type'', PStr ''lookup'')],
        [(''id'', PStr ''c2''),
         (''question'', PStr ''Explain how PivotTables work and when you'd use them.''),
         (''type'', PStr ''analysis'')]]),
     (''scenario_based'',
       [ [(''id'', PStr ''s1''),
         (''question'', PStr ''You have a dataset with 10,000 rows of sales data. How would you analyze it to find the top 10 customers?''),
         (''type'', PStr ''analysis'')]]),
     (''troubleshooting'',
       [ [(''id'', PStr ''t1''),
         (''question'', PStr ''A VLOOKUP formula is returning #N/A. What could be causing this?''),
         (''type'', PStr ''debugging'')]])]"

text \<open>
  The outcome of opening and parsing \<^verbatim>\<open>comprehensive_questions.json\<close>: the file is
  missing, or reading or parsing it raises another exception, or parsing yields a value.
\<close>

datatype question_file = FileNotFound | LoadFailure | Loaded pyval

record organized_questions =
  warmup_list :: "pydict list"
  core_skills_list :: "pydict list"
  scenario_based_list :: "pydict list"
  troubleshooting_list :: "pydict list"

definition organize_question :: "pyval \<Rightarrow> organized_questions \<Rightarrow> error + organized_questions" where
  \<comment> \<open>the body of the loop, lines 83-92; \<^verbatim>\<open>.get\<close> exists on a dictionary only\<close>
  "organize_question q org =
    (case q of
       PDict question \<Rightarrow>
         (let section_tag = dict_get question ''section'' (PStr ''warmup'')
          in if section_tag = PStr ''warmup''
             then Inr (org\<lparr>warmup_list := warmup_list org @ [question]\<rparr>)
             else if section_tag = PStr ''core''
             then Inr (org\<lparr>core_skills_list := core_skills_list org @ [question]\<rparr>)
             else if section_tag = PStr ''scenario''
             then Inr (org\<lparr>scenario_based_list := scenario_based_list org @ [question]\<rparr>)
             else if section_tag = PStr ''troubleshoot''
             then Inr (org\<lparr>troubleshooting_list := troubleshooting_list org @ [question]\<rparr>)
             else Inr org)
     | _ \<Rightarrow> Inl AttributeError)"

fun organize_all :: "pyval list \<Rightarrow> organized_questions \<Rightarrow> error + organized_questions" where
  "organize_all [] org = Inr org"
| "organize_all (q # qs) org =
     (case organize_question q org of Inl e \<Rightarrow> Inl e | Inr org' \<Rightarrow> organize_all qs org')"

fun iterate :: "pyval \<Rightarrow> error + pyval list" where
  \<comment> \<open>the items a \<^verbatim>\<open>for\<close> loop draws from a value: the elements of a list, the
      characters of a string, the keys of a dictionary\<close>
  "iterate (PList xs) = Inr xs"
| "iterate (PStr s) = Inr (map (\<lambda>c. PStr [c]) s)"
| "iterate (PDict d) = Inr (map (\<lambda>(k, v). PStr k) d)"
| "iterate v = Inl TypeError"

definition organize :: "pyval \<Rightarrow> error + (string \<times> pydict list) list" where
  \<comment> \<open>lines 74-94\<close>
  "organize data =
    (case data of
       PDict d \<Rightarrow>
         (case iterate (dict_get d ''questions'' (PList [])) of
            Inl e \<Rightarrow> Inl e
          | Inr qs \<Rightarrow>
             (case organize_all qs \<lparr>warmup_list = [], core_skills_list = [],
                                     scenario_based_list = [], troubleshooting_list = []\<rparr> of
                Inl e \<Rightarrow> Inl e
              | Inr org \<Rightarrow> Inr [(''warmup'', warmup_list org),
                                 (''core_skills'', core_skills_list org),
                                 (''scenario_based'', scenario_based_list org),
                                 (''troubleshooting'', troubleshooting_list org)]))
     | _ \<Rightarrow> Inl AttributeError)"

definition load_question_bank :: "question_file \<Rightarrow> (string \<times> pydict list) list" where
  \<comment> \<open>lines 68-100: both handlers return the fallback questions\<close>
  "load_question_bank file =
    (case file of
       FileNotFound \<Rightarrow> get_fallback_questions
     | LoadFailure \<Rightarrow> get_fallback_questions
     | Loaded data \<Rightarrow>
        (case organize data of Inl e \<Rightarrow> get_fallback_questions | Inr bank \<Rightarrow> bank))"

definition section_entries :: "string \<Rightarrow> pyval list \<Rightarrow> pydict list" where
  \<comment> \<open>the objects of a list whose \<^verbatim>\<open>section\<close> is the given one, in their order; a missing
      \<^verbatim>\<open>section\<close> counts as \<^verbatim>\<open>warmup\<close>, as at line 83\<close>
  "section_entries tag qs = concat (map
     (\<lambda>q. case q of
            PDict question \<Rightarrow>
              (if dict_get question ''section'' (PStr ''warmup'') = PStr tag
               then [question] else [])
          | _ \<Rightarrow> [])
     qs)"

definition init_agent :: "question_file \<Rightarrow> ExcelInterviewAgent" where
  \<comment> \<open>\<^verbatim>\<open>ExcelInterviewAgent.__init__\<close>\<close>
  "init_agent file =
    \<lparr>questions = load_question_bank file,
     model_url = ''https://api-inference.huggingface.co/models/microsoft/DialoGPT-medium'',
     evaluation_url = ''https://api-inference.huggingface.co/models/facebook/bart-large-mnli''\<rparr>"

definition phase_questions_of :: "ExcelInterviewAgent \<Rightarrow> InterviewPhase \<Rightarrow> pydict list" where
  \<comment> \<open>\<^verbatim>\<open>self.questions.get(phase.value, [])\<close>\<close>
  "phase_questions_of agent ph =
    (case map_of (questions agent) (phase_value ph) of None \<Rightarrow> [] | Some qs \<Rightarrow> qs)"

subsection \<open>The phase machine\<close>

definition get_next_question :: "ExcelInterviewAgent \<Rightarrow> InterviewState \<Rightarrow> pydict option" where
  \<comment> \<open>\<^verbatim>\<open>_get_next_question\<close>, lines 340-354\<close>
  "get_next_question agent state =
    (let phase_questions = phase_questions_of agent (current_phase state)
     in if phase_questions = [] then None
        else (let question_index = length (filter
                    (\<lambda>msg. phase msg = current_phase state \<and> role msg = ''interviewer''
                           \<and> truthy (question_id msg))
                    (conversation_history state))
              in if question_index < length phase_questions
                 then Some (phase_questions ! question_index)
                 else None))"

definition transition_to_next_phase :: "ExcelInterviewAgent \<Rightarrow> InterviewState \<Rightarrow> InterviewPhase" where
  \<comment> \<open>\<^verbatim>\<open>_transition_to_next_phase\<close>, lines 407-435\<close>
  "transition_to_next_phase agent state =
    (let questions_in_phase = length (filter
            (\<lambda>msg. phase msg = current_phase state \<and> role msg = ''interviewer'')
            (conversation_history state));
         current_phase_questions = phase_questions_of agent (current_phase state)
     in if questions_in_phase \<ge> length current_phase_questions \<and> current_phase_questions \<noteq> []
        then (if current_phase state = GREETING then WARMUP
              else if current_phase state = WARMUP then CORE_SKILLS
              else if current_phase state = CORE_SKILLS then SCENARIO_BASED
              else if current_phase state = SCENARIO_BASED then TROUBLESHOOTING
              else if current_phase state = TROUBLESHOOTING then WRAPUP
              else if current_phase state = WRAPUP then WRAPUP
              else WRAPUP)
        else current_phase state)"

subsection \<open>The report generator\<close>

definition digit_char :: "nat \<Rightarrow> char" where
  "digit_char n = char_of (48 + n)"

function decimal :: "nat \<Rightarrow> string" where
  "decimal n = (if n < 10 then [digit_char n] else decimal (n div 10) @ [digit_char (n mod 10)])"
  by pat_completeness auto
termination
  by (relation "measure id") auto

definition format_1f :: "rat \<Rightarrow> string" where
  \<comment> \<open>the format \<^verbatim>\<open>.1f\<close>: one digit after the point, rounded as above\<close>
  "format_1f x =
    (let t = nat (round_half_even (\<bar>x\<bar> * 10))
     in (if x < 0 then ''-'' else []) @ decimal (t div 10) @ ''.'' @ decimal (t mod 10))"

definition is_cased :: "char \<Rightarrow> bool" where
  \<comment> \<open>the letters with a case among the code points below 256\<close>
  "is_cased c = (let n = (of_char c :: nat) in
     (65 \<le> n \<and> n \<le> 90) \<or> (97 \<le> n \<and> n \<le> 122) \<or> n = 170 \<or> n = 181 \<or> n = 186
     \<or> (192 \<le> n \<and> n \<le> 214) \<or> (216 \<le> n \<and> n \<le> 246) \<or> 248 \<le> n)"

definition char_title :: "char \<Rightarrow> string" where
  \<comment> \<open>the title case of one code point below 256. The sharp s becomes \<^verbatim>\<open>Ss\<close>; the
      capitals of the micro sign and of the y with diaeresis are U+039C and U+0178, written
      as their UTF-8 bytes\<close>
  "char_title c = (let n = (of_char c :: nat) in
     if n = 223 then ''Ss''
     else if n = 181 then [CHR 0xCE, CHR 0x9C]
     else if n = 255 then [CHR 0xC5, CHR 0xB8]
     else if (97 \<le> n \<and> n \<le> 122) \<or> (224 \<le> n \<and> n \<le> 254 \<and> n \<noteq> 247)
     then [char_of (n - 32)] else [c])"

fun title_from :: "bool \<Rightarrow> string \<Rightarrow> string" where
  \<comment> \<open>the flag says whether the character before is a cased letter\<close>
  "title_from prev [] = []"
| "title_from prev (c # cs) =
     (if prev then [char_lower c] else char_title c) @ title_from (is_cased c) cs"

definition title :: "string \<Rightarrow> string" where
  "title s = title_from False s"

definition char_title_lower :: "char \<Rightarrow> string" where
  \<comment> \<open>\<^verbatim>\<open>.lower()\<close> of the title case of one code point below 256: \<^verbatim>\<open>ss\<close> for the sharp
      s, U+03BC (as its UTF-8 bytes) for the micro sign\<close>
  "char_title_lower c = (let n = (of_char c :: nat) in
     if n = 223 then ''ss''
     else if n = 181 then [CHR 0xCE, CHR 0xBC]
     else [char_lower c])"

fun title_lower_from :: "bool \<Rightarrow> string \<Rightarrow> string" where
  "title_lower_from prev [] = []"
| "title_lower_from prev (c # cs) =
     (if prev then [char_lower c] else char_title_lower c) @ title_lower_from (is_cased c) cs"

definition title_lower :: "string \<Rightarrow> string" where
  \<comment> \<open>\<^verbatim>\<open>s.title().lower()\<close>, computed from \<open>s\<close>\<close>
  "title_lower s = title_lower_from False s"

definition replace_char :: "char \<Rightarrow> char \<Rightarrow> string \<Rightarrow> string" where
  \<comment> \<open>\<^verbatim>\<open>s.replace(a, b)\<close> for one-character arguments\<close>
  "replace_char a b s = map (\<lambda>c. if c = a then b else c) s"

definition bullet :: string where
  \<comment> \<open>the bullet U+2022 lies outside the block 0..255; it is written as its three
      UTF-8 bytes\<close>
  "bullet = [CHR 0xE2, CHR 0x80, CHR 0xA2]"

definition phase_average :: "rat list \<Rightarrow> rat" where
  \<comment> \<open>line 489\<close>
  "phase_average scores =
    (if scores \<noteq> [] then float_div (float_sum scores) (length scores) else 0)"

definition category_lines :: "string \<times> rat list \<Rightarrow> string" where
  \<comment> \<open>the body of the loop, lines 489-499\<close>
  "category_lines entry =
    (case entry of (phase_key, scores) \<Rightarrow>
      (let phase_avg = phase_average scores;
           spaced = replace_char (CHR ''_'') (CHR '' '') phase_key;
           phase_name = title spaced;
           phase_name_lower = title_lower spaced
       in bullet @ '' '' @ phase_name @ '': '' @ format_1f phase_avg @ ''/10\<newline>'' @
          (if phase_avg \<ge> 8
           then ''  Excellent performance in '' @ phase_name_lower @ ''\<newline>''
           else if phase_avg \<ge> 6
           then ''  Good performance in '' @ phase_name_lower @ ''\<newline>''
           else ''  Needs improvement in '' @ phase_name_lower @ ''\<newline>'')))"

definition detailed_assessment :: "rat \<Rightarrow> string" where
  \<comment> \<open>lines 501-525\<close>
  "detailed_assessment avg_score =
    ''\<newline>**Detailed Assessment:**\<newline>'' @
    (if avg_score \<ge> 8
     then ''**Excellent Performance!**\<newline>'' @
          bullet @ '' You demonstrate advanced Excel proficiency\<newline>'' @
          bullet @ '' Strong technical knowledge and practical application\<newline>'' @
          bullet @ '' Ready for senior-level Excel roles\<newline>'' @
          bullet @ '' Consider pursuing Excel certification\<newline>''
     else if avg_score \<ge> 6
     then ''**Good Performance**\<newline>'' @
          bullet @ '' Solid foundation in Excel fundamentals\<newline>'' @
          bullet @ '' Shows understanding of core functions\<newline>'' @
          bullet @ '' Focus on advanced features (VLOOKUP, PivotTables, macros)\<newline>'' @
          bullet @ '' Practice with real-world datasets\<newline>''
     else if avg_score \<ge> 4
     then ''**Developing Skills**\<newline>'' @
          bullet @ '' Basic Excel knowledge demonstrated\<newline>'' @
          bullet @ '' Focus on fundamental functions (SUM, COUNT, AVERAGE)\<newline>'' @
          bullet @ '' Practice with Excel tutorials and exercises\<newline>'' @
          bullet @ '' Consider Excel beginner courses\<newline>''
     else ''**Needs Focused Learning**\<newline>'' @
          bullet @ '' Start with Excel basics and fundamentals\<newline>'' @
          bullet @ '' Practice with simple formulas and functions\<newline>'' @
          bullet @ '' Take structured Excel training courses\<newline>'' @
          bullet @ '' Build confidence with hands-on practice\<newline>'')"

definition next_steps :: "rat \<Rightarrow> string" where
  \<comment> \<open>lines 527-535\<close>
  "next_steps avg_score =
    ''\<newline>**Next Steps:**\<newline>'' @
    (if avg_score \<ge> 6
     then bullet @ '' Practice advanced Excel features\<newline>'' @
          bullet @ '' Work with complex datasets\<newline>'' @
          bullet @ '' Learn Power Query and Power Pivot\<newline>''
     else bullet @ '' Complete Excel fundamentals training\<newline>'' @
          bullet @ '' Practice with sample datasets\<newline>'' @
          bullet @ '' Focus on basic formulas and functions\<newline>'')"

definition generate_fallback_report :: "rat \<Rightarrow> (string \<times> rat list) list \<Rightarrow> nat \<Rightarrow> string" where
  \<comment> \<open>\<^verbatim>\<open>_generate_fallback_report\<close>, lines 480-537\<close>
  "generate_fallback_report avg_score phase_scores total_questions =
    ''**Interview Complete!**\<newline>\<newline>'' @
    ''**Overall Score: '' @ format_1f avg_score @ ''/10**\<newline>\<newline>'' @
    ''**Questions Answered: '' @ decimal total_questions @ ''**\<newline>\<newline>'' @
    (if phase_scores \<noteq> []
     then ''**Performance by Category:**\<newline>'' @ concat (map category_lines phase_scores)
     else []) @
    detailed_assessment avg_score @
    next_steps avg_score"

subsection \<open>The external model and the final report\<close>

definition call_ai_model :: "environment \<Rightarrow> string \<Rightarrow> string \<Rightarrow> pyval" where
  \<comment> \<open>\<^verbatim>\<open>_call_ai_model\<close>, lines 121-137: every exception ends in the empty string\<close>
  "call_ai_model env prompt url =
    (case http_post env url prompt of
       None \<Rightarrow> PStr []
     | Some (Response status_code body) \<Rightarrow>
        (if status_code = 200
         then (case body of
                 None \<Rightarrow> PStr []
               | Some (PList (x # xs)) \<Rightarrow>
                  (case x of PDict d \<Rightarrow> dict_get d ''generated_text'' (PStr [])
                           | _ \<Rightarrow> PStr [])
               | Some (PDict d) \<Rightarrow> dict_get d ''generated_text'' (PStr [])
               | Some _ \<Rightarrow> PStr [])
         else PStr []))"

definition first_100 :: "environment \<Rightarrow> pyval \<Rightarrow> error + string" where
  \<comment> \<open>the text that \<^verbatim>\<open>{msg.content[:100]}\<close> puts into the summary: a string and a list
      can be sliced, the other values raise\<close>
  "first_100 env v =
    (case v of
       PStr s \<Rightarrow> Inr (take 100 s)
     | PList xs \<Rightarrow> Inr (str_of env (PList (take 100 xs)))
     | _ \<Rightarrow> Inl TypeError)"

fun summarize :: "environment \<Rightarrow> string \<Rightarrow> InterviewMessage list \<Rightarrow> error + string" where
  \<comment> \<open>the loop of lines 442-444; the second argument is \<^verbatim>\<open>conversation_summary\<close>\<close>
  "summarize env conversation_summary [] = Inr conversation_summary"
| "summarize env conversation_summary (msg # msgs) =
     (if role msg = ''candidate''
      then (case first_100 env (content msg) of
              Inl e \<Rightarrow> Inl e
            | Inr t \<Rightarrow> summarize env
                (conversation_summary @ ''Candidate: '' @ t @ ''...\<newline>'') msgs)
      else summarize env conversation_summary msgs)"

definition last_10 :: "'a list \<Rightarrow> 'a list" where
  \<comment> \<open>\<^verbatim>\<open>xs[-10:]\<close>\<close>
  "last_10 xs = drop (length xs - 10) xs"

definition indent :: string where
  "indent = replicate 12 (CHR '' '')"

definition report_prompt ::
  "environment \<Rightarrow> InterviewState \<Rightarrow> rat \<Rightarrow> (string \<times> rat list) list \<Rightarrow> string \<Rightarrow> string" where
  \<comment> \<open>the f-string of lines 446-467\<close>
  "report_prompt env state avg_score phase_scores conversation_summary =
    ''\<newline>'' @
    indent @ ''You are Sarah Chen, an Excel expert who just conducted a technical interview.\<newline>'' @
    indent @ ''\<newline>'' @
    indent @ ''Interview Summary:\<newline>'' @
    indent @ ''- Candidate: '' @ candidate_name state @ ''\<newline>'' @
    indent @ ''- Overall Score: '' @ format_1f avg_score @ ''/10\<newline>'' @
    indent @ ''- Questions Answered: '' @ decimal (length (evaluation_scores state)) @ ''\<newline>'' @
    indent @ ''- Performance by Category: '' @ str_of_scores env phase_scores @ ''\<newline>'' @
    indent @ ''\<newline>'' @
    indent @ ''Recent Conversation:\<newline>'' @
    indent @ conversation_summary @ ''\<newline>'' @
    indent @ ''\<newline>'' @
    indent @ ''Generate a professional, encouraging final report that includes:\<newline>'' @
    indent @ ''1. Congratulations on completion\<newline>'' @
    indent @ ''2. Overall performance assessment\<newline>'' @
    indent @ ''3. Specific strengths identified\<newline>'' @
    indent @ ''4. Areas for improvement\<newline>'' @
    indent @ ''5. Next steps and recommendations\<newline>'' @
    indent @ ''\<newline>'' @
    indent @ ''Be encouraging but honest. Use emojis appropriately.\<newline>'' @
    indent @ ''Format as markdown with clear sections.\<newline>'' @
    indent"

fun val_strip :: "pyval \<Rightarrow> error + string" where
  \<comment> \<open>\<^verbatim>\<open>v.strip()\<close>: only a \<^verbatim>\<open>str\<close> has the method\<close>
  "val_strip (PStr s) = Inr (strip s)"
| "val_strip v = Inl AttributeError"

definition ai_final_report ::
  "environment \<Rightarrow> ExcelInterviewAgent \<Rightarrow> InterviewState \<Rightarrow> rat \<Rightarrow> (string \<times> rat list) list
     \<Rightarrow> error + string" where
  \<comment> \<open>the body of the \<^verbatim>\<open>try\<close> of \<^verbatim>\<open>_generate_ai_final_report\<close>, lines 440-474; the
      arguments of the call at line 469 are evaluated before the call is made\<close>
  "ai_final_report env agent state avg_score phase_scores =
    (case summarize env [] (last_10 (conversation_history state)) of
       Inl e \<Rightarrow> Inl e
     | Inr conversation_summary \<Rightarrow>
        (let prompt = report_prompt env state avg_score phase_scores conversation_summary
         in case agent_attribute agent ''evaluation_model_url'' of
              Inl e \<Rightarrow> Inl e
            | Inr url \<Rightarrow>
               (let ai_report = call_ai_model env prompt url
                in if truthy ai_report
                   then (case val_strip ai_report of
                           Inl e \<Rightarrow> Inl e
                         | Inr stripped \<Rightarrow>
                            if length stripped > 50 then Inr stripped
                            else Inr (generate_fallback_report avg_score phase_scores
                                        (length (evaluation_scores state))))
                   else Inr (generate_fallback_report avg_score phase_scores
                               (length (evaluation_scores state))))))"

definition generate_ai_final_report ::
  "environment \<Rightarrow> ExcelInterviewAgent \<Rightarrow> InterviewState \<Rightarrow> rat \<Rightarrow> (string \<times> rat list) list
     \<Rightarrow> string" where
  \<comment> \<open>\<^verbatim>\<open>_generate_ai_final_report\<close>: the \<^verbatim>\<open>except\<close> branch, lines 476-478, builds the
      structured report\<close>
  "generate_ai_final_report env agent state avg_score phase_scores =
    (case ai_final_report env agent state avg_score phase_scores of
       Inr text \<Rightarrow> text
     | Inl e \<Rightarrow> generate_fallback_report avg_score phase_scores
                 (length (evaluation_scores state)))"

subsection \<open>The conversation driver: \<^verbatim>\<open>process_candidate_response\<close>\<close>

text \<open>
  The session is mutated in place. A call either returns the session or raises and leaves
  it as it was mutated up to that point; both outcomes carry the session.
\<close>

datatype outcome = Returned InterviewState | Raised error InterviewState

fun state_of :: "outcome \<Rightarrow> InterviewState" where
  "state_of (Returned state) = state"
| "state_of (Raised e state) = state"

definition add_candidate_message :: "InterviewState \<Rightarrow> string \<Rightarrow> InterviewState" where
  \<comment> \<open>lines 542-549\<close>
  "add_candidate_message state response =
    state\<lparr>conversation_history := conversation_history state @
      [\<lparr>role = ''candidate'', content = PStr response, phase = current_phase state,
        question_id = PNone, evaluation = None\<rparr>]\<rparr>"

definition evaluate_answer :: "InterviewState \<Rightarrow> string \<Rightarrow> outcome" where
  \<comment> \<open>lines 551-561; an empty dictionary is false, and a question without the key
      \<^verbatim>\<open>id\<close> raises while the entry is built\<close>
  "evaluate_answer state response =
    (case current_question state of
       None \<Rightarrow> Returned state
     | Some question \<Rightarrow>
        (if question = [] then Returned state
         else (let evaluation = ai_evaluate_response question response (current_phase state)
               in case dict_item question ''id'' of
                    Inl e \<Rightarrow> Raised e state
                  | Inr qid \<Rightarrow> Returned (state
                      \<lparr>evaluation_scores := evaluation_scores state @
                         [\<lparr>entry_question_id = qid, entry_score = score evaluation,
                           entry_phase = phase_value (current_phase state)\<rparr>],
                       current_question := None\<rparr>))))"

definition ask_next_question :: "ExcelInterviewAgent \<Rightarrow> InterviewState \<Rightarrow> outcome" where
  \<comment> \<open>lines 563-584; the question is made the pending one before its message is built\<close>
  "ask_next_question agent state =
    (if current_phase state \<noteq> WRAPUP
     then (let state1 = (if current_phase state = GREETING
                         then state\<lparr>current_phase := WARMUP\<rparr> else state)
           in case get_next_question agent state1 of
                None \<Rightarrow> Returned state1
              | Some next_question \<Rightarrow>
                 (if next_question = [] then Returned state1
                  else (let state2 = state1\<lparr>current_question := Some next_question\<rparr>
                        in case dict_item next_question ''question'' of
                             Inl e \<Rightarrow> Raised e state2
                           | Inr text \<Rightarrow>
                              (case dict_item next_question ''id'' of
                                 Inl e \<Rightarrow> Raised e state2
                               | Inr qid \<Rightarrow> Returned (state2
                                   \<lparr>conversation_history := conversation_history state2 @
                                      [\<lparr>role = ''interviewer'', content = text,
                                        phase = current_phase state2, question_id = qid,
                                        evaluation = None\<rparr>]\<rparr>)))))
     else Returned state)"

definition total_questions_asked :: "InterviewState \<Rightarrow> nat" where
  \<comment> \<open>\<^verbatim>\<open>total_questions\<close>, lines 589-590\<close>
  "total_questions_asked state = length (filter
      (\<lambda>msg. role msg = ''interviewer'' \<and> phase msg \<noteq> GREETING)
      (conversation_history state))"

definition check_phase :: "ExcelInterviewAgent \<Rightarrow> InterviewState \<Rightarrow> InterviewState" where
  \<comment> \<open>lines 588-602\<close>
  "check_phase agent state =
    (if total_questions_asked state \<ge> 18
     then (if current_question state = None
           then state\<lparr>current_phase := WRAPUP\<rparr>
           else state)
     else (let next_phase = transition_to_next_phase agent state
           in if next_phase \<noteq> current_phase state
              then state\<lparr>current_phase := next_phase\<rparr>
              else state))"

fun add_score :: "(string \<times> rat list) list \<Rightarrow> string \<Rightarrow> rat \<Rightarrow> (string \<times> rat list) list" where
  \<comment> \<open>lines 613-616 on a dictionary that keeps the order of insertion\<close>
  "add_score [] k x = [(k, [x])]"
| "add_score ((k', xs) # rest) k x =
     (if k' = k then (k', xs @ [x]) # rest else (k', xs) # add_score rest k x)"

definition scores_by_phase :: "score_entry list \<Rightarrow> (string \<times> rat list) list" where
  \<comment> \<open>lines 610-616\<close>
  "scores_by_phase entries =
     foldl (\<lambda>phase_scores e. add_score phase_scores (entry_phase e) (entry_score e)) [] entries"

definition average_score :: "score_entry list \<Rightarrow> rat" where
  \<comment> \<open>lines 607-608\<close>
  "average_score entries =
    (if entries \<noteq> []
     then float_div (float_sum (map entry_score entries)) (length entries) else 0)"

definition show_evaluation ::
  "environment \<Rightarrow> ExcelInterviewAgent \<Rightarrow> InterviewState \<Rightarrow> InterviewState" where
  \<comment> \<open>lines 604-627\<close>
  "show_evaluation env agent state =
    (if current_phase state = WRAPUP
     then (let avg_score = average_score (evaluation_scores state);
               phase_scores = scores_by_phase (evaluation_scores state);
               feedback_text = generate_ai_final_report env agent state avg_score phase_scores
           in state\<lparr>conversation_history := conversation_history state @
                [\<lparr>role = ''interviewer'', content = PStr feedback_text, phase = WRAPUP,
                  question_id = PNone, evaluation = None\<rparr>]\<rparr>)
     else state)"

definition process_candidate_response ::
  "environment \<Rightarrow> ExcelInterviewAgent \<Rightarrow> InterviewState \<Rightarrow> string \<Rightarrow> outcome" where
  \<comment> \<open>lines 539-629\<close>
  "process_candidate_response env agent state response =
    (case evaluate_answer (add_candidate_message state response) response of
       Raised e state1 \<Rightarrow> Raised e state1
     | Returned state1 \<Rightarrow>
        (case ask_next_question agent state1 of
           Raised e state2 \<Rightarrow> Raised e state2
         | Returned state2 \<Rightarrow>
            Returned (if current_phase state2 \<noteq> GREETING
                      then show_evaluation env agent (check_phase agent state2)
                      else state2)))"

subsection \<open>Sessions\<close>

definition new_session :: "string \<Rightarrow> nat \<Rightarrow> InterviewState" where
  \<comment> \<open>the constructor call of lines 797-802\<close>
  "new_session name now =
    \<lparr>candidate_name = strip name, current_phase = GREETING, conversation_history = [],
     current_question = None, evaluation_scores = [], start_time = Some now, metadata = []\<rparr>"

definition start_interview :: "string \<Rightarrow> nat \<Rightarrow> InterviewState" where
  \<comment> \<open>lines 797-814: the greeting is appended and the session moves to the warm-up\<close>
  "start_interview name now =
    (new_session name now)
      \<lparr>conversation_history :=
         [\<lparr>role = ''interviewer'',
           content = PStr (''Hello '' @ strip name @ ''! It's great to meet you. I'm Sarah, and I'll be conducting your Excel technical interview today. We'll go through about 20 Excel questions covering different skill levels. Are you ready to begin?''),
           phase = GREETING, question_id = PNone, evaluation = None\<rparr>],
       current_phase := WARMUP\<rparr>"

text \<open>
  The sessions that calls of \<^verbatim>\<open>process_candidate_response\<close> can produce from a new one,
  whether a call returns or raises, with any answer and in any phase.
\<close>

inductive reachable :: "environment \<Rightarrow> ExcelInterviewAgent \<Rightarrow> InterviewState \<Rightarrow> bool"
  for env :: environment and agent :: ExcelInterviewAgent where
  created: "reachable env agent (new_session name now)"
| started: "reachable env agent (start_interview name now)"
| turn: "reachable env agent state \<Longrightarrow>
         reachable env agent (state_of (process_candidate_response env agent state response))"

fun phase_rank :: "InterviewPhase \<Rightarrow> nat" where
  \<comment> \<open>the position in the enumeration, lines 33-40\<close>
  "phase_rank GREETING = 0"
| "phase_rank WARMUP = 1"
| "phase_rank CORE_SKILLS = 2"
| "phase_rank SCENARIO_BASED = 3"
| "phase_rank TROUBLESHOOTING = 4"
| "phase_rank WRAPUP = 5"
| "phase_rank FEEDBACK = 6"

definition report_messages :: "InterviewState \<Rightarrow> InterviewMessage list" where
  \<comment> \<open>the report messages of the transcript: the interviewer's messages of the wrap-up\<close>
  "report_messages state = filter (\<lambda>msg. role msg = ''interviewer'' \<and> phase msg = WRAPUP)
      (conversation_history state)"

text \<open>
  The property of a session that the turns preserve: the phase tags of the transcript do
  not decrease along it, none of them lies beyond the current phase, and the current phase
  is not \<^verbatim>\<open>FEEDBACK\<close>.
\<close>

definition well_tagged :: "InterviewState \<Rightarrow> bool" where
  "well_tagged state =
    (sorted (map (phase_rank \<circ> phase) (conversation_history state)) \<and>
     (\<forall>msg \<in> set (conversation_history state).
        phase_rank (phase msg) \<le> phase_rank (current_phase state)) \<and>
     current_phase state \<noteq> FEEDBACK)"

subsection \<open>Inputs of the scenarios and examples\<close>

definition vlookup_answer :: string where
  "vlookup_answer = ''You use VLOOKUP to search a table and return a matching value, for example finding a price by product ID''"

definition vlookup_question :: pydict where
  "vlookup_question = [(''id'', PStr ''c1''),
     (''question'', PStr ''How would you use VLOOKUP to find data in a table?''),
     (''type'', PStr ''lookup'')]"

definition null_text_question :: pydict where
  "null_text_question = [(''id'', PStr ''w1''), (''question'', PNone), (''type'', PStr ''experience'')]"

definition twenty_words :: string where
  "twenty_words = ''I open the sheet then I click the cell and I type the numbers in it one by one slowly''"

definition sum_answer :: string where
  "sum_answer = ''I type the SUM formula in a cell. Then I select the range. For example A1 to A9.''"

text \<open>
  An environment without network, and one whose service answers every request with a
  text of 60 characters. A question document with one question for each phase, the agent
  that loads it, and the session of a candidate who answers its four questions.
\<close>

definition offline :: environment where
  "offline = \<lparr>http_post = (\<lambda>url prompt. None), str_of = (\<lambda>v. []), str_of_scores = (\<lambda>ps. [])\<rparr>"

definition short_question :: "string \<Rightarrow> string \<Rightarrow> string \<Rightarrow> pydict" where
  "short_question qid sect question_text =
     [(''id'', PStr qid), (''section'', PStr sect), (''question'', PStr question_text)]"

definition short_document :: pyval where
  "short_document = PDict [(''questions'', PList
     [PDict (short_question ''w1'' ''warmup'' ''Do you use Excel?''),
      PDict (short_question ''c1'' ''core'' ''What is VLOOKUP?''),
      PDict (short_question ''s1'' ''scenario'' ''How do you rank sales?''),
      PDict (short_question ''t1'' ''troubleshoot'' ''Why #N/A?'')])]"

definition short_agent :: ExcelInterviewAgent where
  "short_agent = init_agent (Loaded short_document)"

definition candidate_message :: "InterviewPhase \<Rightarrow> string \<Rightarrow> InterviewMessage" where
  "candidate_message ph response =
     \<lparr>role = ''candidate'', content = PStr response, phase = ph, question_id = PNone,
      evaluation = None\<rparr>"

definition question_message :: "InterviewPhase \<Rightarrow> pydict \<Rightarrow> InterviewMessage" where
  "question_message ph question =
     \<lparr>role = ''interviewer'', content = dict_get question ''question'' PNone, phase = ph,
      question_id = dict_get question ''id'' PNone, evaluation = None\<rparr>"

definition report_message :: "rat \<Rightarrow> (string \<times> rat list) list \<Rightarrow> nat \<Rightarrow> InterviewMessage" where
  "report_message avg_score phase_scores n =
     \<lparr>role = ''interviewer'', content = PStr (generate_fallback_report avg_score phase_scores n),
      phase = WRAPUP, question_id = PNone, evaluation = None\<rparr>"

definition after_turn1 :: InterviewState where
  "after_turn1 = (start_interview ''Ada'' 0)
     \<lparr>current_phase := CORE_SKILLS,
      conversation_history := conversation_history (start_interview ''Ada'' 0) @
        [candidate_message WARMUP ''yes'',
         question_message WARMUP (short_question ''w1'' ''warmup'' ''Do you use Excel?'')],
      current_question := Some (short_question ''w1'' ''warmup'' ''Do you use Excel?'')\<rparr>"

definition after_turn2 :: InterviewState where
  "after_turn2 = after_turn1
     \<lparr>current_phase := SCENARIO_BASED,
      conversation_history := conversation_history after_turn1 @
        [candidate_message CORE_SKILLS ''daily'',
         question_message CORE_SKILLS (short_question ''c1'' ''core'' ''What is VLOOKUP?'')],
      current_question := Some (short_question ''c1'' ''core'' ''What is VLOOKUP?''),
      evaluation_scores := [\<lparr>entry_question_id = PStr ''w1'', entry_score = 1,
                              entry_phase = ''core_skills''\<rparr>]\<rparr>"

definition after_turn3 :: InterviewState where
  "after_turn3 = after_turn2
     \<lparr>current_phase := TROUBLESHOOTING,
      conversation_history := conversation_history after_turn2 @
        [candidate_message SCENARIO_BASED ''a lookup'',
         question_message SCENARIO_BASED (short_question ''s1'' ''scenario'' ''How do you rank sales?'')],
      current_question := Some (short_question ''s1'' ''scenario'' ''How do you rank sales?''),
      evaluation_scores := evaluation_scores after_turn2 @
        [\<lparr>entry_question_id = PStr ''c1'', entry_score = 1,
          entry_phase = ''scenario_based''\<rparr>]\<rparr>"

definition after_turn4 :: InterviewState where
  "after_turn4 = after_turn3
     \<lparr>current_phase := WRAPUP,
      conversation_history := conversation_history after_turn3 @
        [candidate_message TROUBLESHOOTING ''I sort'',
         question_message TROUBLESHOOTING (short_question ''t1'' ''troubleshoot'' ''Why #N/A?''),
         report_message 1 [(''core_skills'', [1]), (''scenario_based'', [1]),
                           (''troubleshooting'', [1])] 3],
      current_question := Some (short_question ''t1'' ''troubleshoot'' ''Why #N/A?''),
      evaluation_scores := evaluation_scores after_turn3 @
        [\<lparr>entry_question_id = PStr ''s1'', entry_score = 1,
          entry_phase = ''troubleshooting''\<rparr>]\<rparr>"

definition long_agent :: ExcelInterviewAgent where
  "long_agent = init_agent (Loaded (PDict [(''questions'', PList
     (replicate 18 (PDict (short_question ''w1'' ''warmup'' ''Do you use Excel?''))))]))"

definition eighteen_asked :: InterviewState where
  "eighteen_asked =
     \<lparr>candidate_name = ''Ada'', current_phase = WARMUP,
      conversation_history = conversation_history (start_interview ''Ada'' 0) @
        replicate 18 (question_message WARMUP (short_question ''w1'' ''warmup'' ''Do you use Excel?'')),
      current_question = Some (short_question ''w1'' ''warmup'' ''Do you use Excel?''),
      evaluation_scores = [], start_time = Some 0, metadata = []\<rparr>"

definition chatty :: environment where
  "chatty = \<lparr>http_post = (\<lambda>url prompt. Some (Response 200 (Some (PList
       [PDict [(''generated_text'', PStr (replicate 60 (CHR ''a'')))]])))),
     str_of = (\<lambda>v. []), str_of_scores = (\<lambda>ps. [])\<rparr>"

section \<open>Properties\<close>

subsection \<open>The score of the advanced scorer\<close>

lemma round1_range: "1 \<le> x \<Longrightarrow> x \<le> 10 \<Longrightarrow> 1 \<le> round1 x \<and> round1 x \<le> 10"
proof -
  assume a: "1 \<le> x" "x \<le> 10"
  define y where "y = x * 10"
  define f where "f = \<lfloor>y\<rfloor>"
  have y: "10 \<le> y" "y \<le> 100" using a by (simp_all add: y_def)
  have f1: "10 \<le> f" using y unfolding f_def by (simp add: le_floor_iff)
  have f2: "f \<le> 100" using y unfolding f_def by (simp add: floor_le_iff) 
  have f3: "y - of_int f > 0 \<Longrightarrow> f + 1 \<le> 100"
  proof -
    assume "y - of_int f > 0"
    then have "of_int f < y" by simp
    then have "of_int f < (100::rat)" using y by simp
    then have "f < 100" by linarith
    then show ?thesis by simp
  qed
  show ?thesis
    unfolding round1_def round_half_even_def Let_def y_def[symmetric] f_def[symmetric]
    using f1 f2 f3 by (auto simp: field_simps)
qed

lemma final_score_range: "1 \<le> final_score v \<and> final_score v \<le> 10"
  by (simp add: final_score_def)

lemma final_score_generate_reasoning: "final_score (generate_reasoning v) = final_score v"
  by (simp add: generate_reasoning_def final_score_def total_score_def)

lemma val_lower_cases:
  "val_lower x = (case x of PStr s \<Rightarrow> Inr (lower s) | _ \<Rightarrow> Inl AttributeError)"
  by (cases x) simp_all

lemma advanced_evaluation_text:
  "dict_get question ''question'' (PStr []) = PStr t \<Longrightarrow>
   \<exists>res. advanced_evaluation question response ph = Inr res \<and>
         score res = round1 (final_score (sub_scores response ph)) \<and>
         strengths res \<noteq> []"
  by (simp add: advanced_evaluation_def Let_def final_score_generate_reasoning)

lemma advanced_evaluation_no_text:
  "\<forall>t. dict_get question ''question'' (PStr []) \<noteq> PStr t \<Longrightarrow>
   advanced_evaluation question response ph = Inl AttributeError"
  by (cases "dict_get question ''question'' (PStr [])") (simp_all add: advanced_evaluation_def)

lemma rule_based_evaluation_no_text:
  "\<forall>t. dict_get question ''question'' (PStr []) \<noteq> PStr t \<Longrightarrow>
   rule_based_evaluation question response ph = Inl AttributeError"
  by (cases "dict_get question ''question'' (PStr [])") (simp_all add: rule_based_evaluation_def)

lemma advanced_evaluation_Inl:
  "advanced_evaluation question response ph = Inl e \<Longrightarrow>
   \<forall>t. dict_get question ''question'' (PStr []) \<noteq> PStr t"
  by (auto simp: advanced_evaluation_def Let_def)

lemma ai_evaluate_response_no_text:
  "\<forall>t. dict_get question ''question'' (PStr []) \<noteq> PStr t \<Longrightarrow>
   ai_evaluate_response question response ph = neutral_evaluation"
  by (simp add: ai_evaluate_response_def rule_based_evaluate_response_def
      advanced_evaluation_no_text rule_based_evaluation_no_text)

lemma ai_evaluate_response_text:
  assumes "dict_get question ''question'' (PStr []) = PStr t"
  shows "score (ai_evaluate_response question response ph)
           = round1 (final_score (sub_scores response ph))"
    and "strengths (ai_evaluate_response question response ph) \<noteq> []"
  using advanced_evaluation_text[OF assms, of response ph]
  by (auto simp: ai_evaluate_response_def)

text \<open>
  C1 (amended). For every question dictionary, answer text and phase, the score returned
  by \<^verbatim>\<open>_ai_evaluate_response\<close> lies in the closed range from 1 to 10. When the question
  text is absent or a string, the score is the sum of the four sub-scores divided by 4,
  clamped to that range and rounded to one decimal; when the question carries a text that
  is not a string, the score is the neutral 5.
\<close>

theorem ai_evaluate_response_score:
  "1 \<le> score (ai_evaluate_response question response ph) \<and>
   score (ai_evaluate_response question response ph) \<le> 10 \<and>
   score (ai_evaluate_response question response ph) =
     (case dict_get question ''question'' (PStr []) of
        PStr t \<Rightarrow>
          (let v = sub_scores response ph
           in round1 (min 10 (max 1 (of_int (technical_accuracy v + completeness v
                                              + clarity v + excel_knowledge v) / 4))))
      | _ \<Rightarrow> 5)"
proof (cases "\<exists>t. dict_get question ''question'' (PStr []) = PStr t")
  case True
  then obtain t where t: "dict_get question ''question'' (PStr []) = PStr t" by blast
  have s: "score (ai_evaluate_response question response ph)
             = round1 (final_score (sub_scores response ph))"
    by (rule ai_evaluate_response_text(1)[OF t])
  have r: "1 \<le> round1 (final_score (sub_scores response ph)) \<and>
           round1 (final_score (sub_scores response ph)) \<le> 10"
    using final_score_range round1_range by blast
  show ?thesis using s r t by (simp add: final_score_def total_score_def Let_def)
next
  case False
  then have n: "\<forall>t. dict_get question ''question'' (PStr []) \<noteq> PStr t" by blast
  have "ai_evaluate_response question response ph = neutral_evaluation"
    by (rule ai_evaluate_response_no_text[OF n])
  then show ?thesis using n
    by (cases "dict_get question ''question'' (PStr [])") (simp_all add: neutral_evaluation_def)
qed

text \<open>
  An answer whose sub-scores add up to 13: 13/4 = 3.25 lies halfway between 3.2 and 3.3
  and is rounded to the even digit.
\<close>

theorem ai_evaluate_response_score_witness:
  "score (ai_evaluate_response vlookup_question sum_answer WARMUP) = 16/5"
proof -
  have "(case dict_get vlookup_question ''question'' (PStr []) of
        PStr t \<Rightarrow>
          (let v = sub_scores sum_answer WARMUP
           in round1 (min 10 (max 1 (of_int (technical_accuracy v + completeness v
                                              + clarity v + excel_knowledge v) / 4))))
      | _ \<Rightarrow> 5) = 16/5"
    unfolding vlookup_question_def sum_answer_def by code_simp
  then show ?thesis
    using ai_evaluate_response_score[of vlookup_question sum_answer WARMUP] by simp
qed

text \<open>
  C1 as stated fails for a question whose text is \<^verbatim>\<open>None\<close>: the scorer returns 5, the
  sub-scores of the answer give 1.
\<close>

theorem ai_evaluate_response_score_counterexample:
  "score (ai_evaluate_response null_text_question ''x'' WARMUP) \<noteq>
     (let v = sub_scores ''x'' WARMUP
      in round1 (min 10 (max 1 (of_int (technical_accuracy v + completeness v
                                         + clarity v + excel_knowledge v) / 4))))"
proof -
  have neutral: "score (ai_evaluate_response null_text_question ''x'' WARMUP) = 5"
    unfolding null_text_question_def by code_simp
  have formula: "(let v = sub_scores ''x'' WARMUP
      in round1 (min 10 (max 1 (of_int (technical_accuracy v + completeness v
                                         + clarity v + excel_knowledge v) / 4)))) = 1"
    by code_simp
  show ?thesis unfolding neutral formula by simp
qed

subsection \<open>Errors inside the scorer\<close>

text \<open>
  C7. The scorer is a total function. Whenever the body of \<^verbatim>\<open>_ai_evaluate_response\<close>
  raises, the exception is caught, the basic scorer it hands over to raises on the same
  line and is caught as well, and the result is the fixed neutral evaluation with score 5
  and its generic text.
\<close>

theorem scorer_error_gives_neutral:
  assumes "advanced_evaluation question response ph = Inl e"
  shows "ai_evaluate_response question response ph = neutral_evaluation \<and>
         score neutral_evaluation = 5 \<and>
         reasoning neutral_evaluation = ''Basic response evaluation''"
  using ai_evaluate_response_no_text[OF advanced_evaluation_Inl[OF assms]]
  by (simp add: neutral_evaluation_def)

text \<open>The hypothesis of C7 holds for a question whose text is \<^verbatim>\<open>None\<close>.\<close>

theorem scorer_error_gives_neutral_witness:
  "advanced_evaluation null_text_question ''I do not know'' CORE_SKILLS = Inl AttributeError \<and>
   ai_evaluate_response null_text_question ''I do not know'' CORE_SKILLS = neutral_evaluation"
proof -
  have h: "advanced_evaluation null_text_question ''I do not know'' CORE_SKILLS = Inl AttributeError"
    by (simp add: null_text_question_def advanced_evaluation_def dict_get_def)
  show ?thesis using h scorer_error_gives_neutral[OF h] by simp
qed

subsection \<open>The completeness sub-score\<close>

lemma completeness_technical_scoring [simp]:
  "completeness (technical_scoring rl v) = completeness v"
  "areas_for_improvement_v (technical_scoring rl v) = areas_for_improvement_v v"
  by (simp_all add: technical_scoring_def Let_def)

lemma completeness_clarity_scoring [simp]:
  "completeness (clarity_scoring r rl v) = completeness v"
  "areas_for_improvement_v (clarity_scoring r rl v) = areas_for_improvement_v v"
  by (simp_all add: clarity_scoring_def Let_def)

lemma completeness_excel_knowledge_scoring [simp]:
  "completeness (excel_knowledge_scoring rl v) = completeness v"
  "areas_for_improvement_v (excel_knowledge_scoring rl v) = areas_for_improvement_v v"
  by (simp_all add: excel_knowledge_scoring_def Let_def)

lemma completeness_phase_specific_scoring [simp]:
  "completeness (phase_specific_scoring p rl v) = completeness v"
  "areas_for_improvement_v (phase_specific_scoring p rl v) = areas_for_improvement_v v"
  by (simp_all add: phase_specific_scoring_def)

text \<open>
  C4 (amended). The completeness sub-score is 4 when the answer has more than 50 words,
  2 when it has between 21 and 50 words, and 1 when it has 20 words or fewer; in the last
  case the note \<^verbatim>\<open>Could provide more detail\<close> is recorded.
\<close>

theorem completeness_sub_score:
  "completeness (sub_scores response ph) =
     (if length (split response) > 50 then 4
      else if length (split response) > 20 then 2 else 1) \<and>
   (length (split response) \<le> 20 \<longrightarrow>
      ''Could provide more detail'' \<in> set (areas_for_improvement_v (sub_scores response ph)))"
  by (simp add: sub_scores_def Let_def completeness_scoring_def initial_scoring_def)

text \<open>An answer of exactly 20 words scores 1 and records the note.\<close>

theorem completeness_sub_score_witness:
  "length (split twenty_words) = 20 \<and> completeness (sub_scores twenty_words WARMUP) = 1 \<and>
   ''Could provide more detail'' \<in> set (areas_for_improvement_v (sub_scores twenty_words WARMUP))"
proof -
  have n: "length (split twenty_words) = 20"
    unfolding twenty_words_def by code_simp
  show ?thesis using n completeness_sub_score[of twenty_words WARMUP] by simp
qed

text \<open>
  C4 as stated fails at 20 words: the count lies in the range 20 to 50, the sub-score is
  not 2.
\<close>

theorem completeness_sub_score_counterexample:
  "20 \<le> length (split twenty_words) \<and> length (split twenty_words) \<le> 50 \<and>
   completeness (sub_scores twenty_words WARMUP) \<noteq> 2"
proof -
  have n: "length (split twenty_words) = 20"
    unfolding twenty_words_def by code_simp
  have c: "completeness (sub_scores twenty_words WARMUP) = 1"
    unfolding twenty_words_def by code_simp
  show ?thesis unfolding n c by simp
qed

subsection \<open>The VLOOKUP scenario\<close>

lemma sub_scores_vlookup_answer:
  "sub_scores vlookup_answer CORE_SKILLS =
     \<lparr>technical_accuracy = 9, completeness = 1, clarity = 2, excel_knowledge = 0,
      reasoning_v = [],
      strengths_v = [''Demonstrates knowledge of Excel functions'',
                     ''Shows understanding of data analysis tools'', ''Provides examples''],
      areas_for_improvement_v = [''Could provide more detail'']\<rparr>"
  unfolding vlookup_answer_def by code_simp

text \<open>
  C5 (amended). In phase \<^verbatim>\<open>core_skills\<close> the answer of the scenario has the sub-scores
  9, 1, 2 and 0, so the scorer returns the score 3 for every question whose text is absent
  or a string (and the neutral 5 otherwise): the score is below 7. The list of strengths
  is not empty.
\<close>

theorem vlookup_answer_score:
  "score (ai_evaluate_response question vlookup_answer CORE_SKILLS) =
     (case dict_get question ''question'' (PStr []) of PStr t \<Rightarrow> 3 | _ \<Rightarrow> 5) \<and>
   score (ai_evaluate_response question vlookup_answer CORE_SKILLS) < 7 \<and>
   strengths (ai_evaluate_response question vlookup_answer CORE_SKILLS) \<noteq> []"
proof (cases "\<exists>t. dict_get question ''question'' (PStr []) = PStr t")
  case True
  then obtain t where t: "dict_get question ''question'' (PStr []) = PStr t" by blast
  have r: "round1 (final_score (sub_scores vlookup_answer CORE_SKILLS)) = 3"
    unfolding sub_scores_vlookup_answer by code_simp
  show ?thesis
    using ai_evaluate_response_text[OF t, of vlookup_answer CORE_SKILLS] r t by simp
next
  case False
  then have n: "\<forall>t. dict_get question ''question'' (PStr []) \<noteq> PStr t" by blast
  have "ai_evaluate_response question vlookup_answer CORE_SKILLS = neutral_evaluation"
    by (rule ai_evaluate_response_no_text[OF n])
  then show ?thesis using n
    by (cases "dict_get question ''question'' (PStr [])") (simp_all add: neutral_evaluation_def)
qed

text \<open>The scenario with the VLOOKUP question of the built-in question set.\<close>

theorem vlookup_answer_score_witness:
  "score (ai_evaluate_response vlookup_question vlookup_answer CORE_SKILLS) = 3 \<and>
   strengths (ai_evaluate_response vlookup_question vlookup_answer CORE_SKILLS) \<noteq> []"
  using vlookup_answer_score[of vlookup_question]
  by (simp add: vlookup_question_def dict_get_def)

text \<open>C5 as stated fails: the score of the scenario is 3, not 7 or more.\<close>

theorem vlookup_answer_score_counterexample:
  "\<not> 7 \<le> score (ai_evaluate_response vlookup_question vlookup_answer CORE_SKILLS)"
proof -
  have "score (ai_evaluate_response vlookup_question vlookup_answer CORE_SKILLS) = 3"
    unfolding vlookup_question_def vlookup_answer_def by code_simp
  then show ?thesis by simp
qed

subsection \<open>The question bank\<close>

lemma organize_all_objects:
  "\<forall>q \<in> set qs. \<exists>question. q = PDict question \<Longrightarrow>
   organize_all qs org =
     Inr \<lparr>warmup_list = warmup_list org @ section_entries ''warmup'' qs,
          core_skills_list = core_skills_list org @ section_entries ''core'' qs,
          scenario_based_list = scenario_based_list org @ section_entries ''scenario'' qs,
          troubleshooting_list = troubleshooting_list org @ section_entries ''troubleshoot'' qs\<rparr>"
proof (induction qs arbitrary: org)
  case Nil
  show ?case by (simp add: section_entries_def)
next
  case (Cons q qs)
  then obtain question where q: "q = PDict question" by auto
  have rest: "\<forall>q \<in> set qs. \<exists>question. q = PDict question" using Cons.prems by simp
  show ?case
    using Cons.IH[OF rest] q
    by (simp add: organize_question_def section_entries_def Let_def)
qed

lemma organize_all_non_object:
  "\<exists>q \<in> set qs. \<forall>question. q \<noteq> PDict question \<Longrightarrow>
   organize_all qs org = Inl AttributeError"
proof (induction qs arbitrary: org)
  case Nil
  then show ?case by simp
next
  case (Cons q qs)
  show ?case
  proof (cases "\<exists>question. q = PDict question")
    case True
    then obtain question where q: "q = PDict question" by blast
    then have "\<exists>q \<in> set qs. \<forall>question. q \<noteq> PDict question" using Cons.prems by auto
    then show ?thesis using Cons.IH q
      by (simp add: organize_question_def Let_def)
  next
    case False
    then have "organize_question q org = Inl AttributeError"
      by (cases q) (simp_all add: organize_question_def)
    then show ?thesis by simp
  qed
qed

text \<open>
  C3 (amended). When the question document is absent, when reading or parsing it raises,
  or when the parsed document cannot be organised (it is not an object, or its
  \<^verbatim>\<open>questions\<close> entry cannot be iterated, or an item drawn from that entry is not an
  object), the question bank is the built-in fallback set. That set has six questions:
  \<^verbatim>\<open>w1\<close> and \<^verbatim>\<open>w2\<close> for the warm-up, \<^verbatim>\<open>c1\<close> and \<^verbatim>\<open>c2\<close> for the core skills,
  \<^verbatim>\<open>s1\<close> for the scenarios and \<^verbatim>\<open>t1\<close> for the troubleshooting. A parsed object whose
  \<^verbatim>\<open>questions\<close> entry is absent or yields objects only is organised by section instead,
  whatever else it lacks, and its bank may be empty.
\<close>

theorem fallback_question_bank:
  "load_question_bank FileNotFound = get_fallback_questions \<and>
   load_question_bank LoadFailure = get_fallback_questions \<and>
   load_question_bank (Loaded data) =
     (case data of
        PDict d \<Rightarrow>
          (case iterate (dict_get d ''questions'' (PList [])) of
             Inl e \<Rightarrow> get_fallback_questions
           | Inr qs \<Rightarrow>
              if \<forall>q \<in> set qs. \<exists>question. q = PDict question
              then [(''warmup'', section_entries ''warmup'' qs),
                    (''core_skills'', section_entries ''core'' qs),
                    (''scenario_based'', section_entries ''scenario'' qs),
                    (''troubleshooting'', section_entries ''troubleshoot'' qs)]
              else get_fallback_questions)
      | _ \<Rightarrow> get_fallback_questions) \<and>
   map (\<lambda>(k, qs). (k, map (\<lambda>q. dict_get q ''id'' PNone) qs)) get_fallback_questions =
     [(''warmup'', [PStr ''w1'', PStr ''w2'']), (''core_skills'', [PStr ''c1'', PStr ''c2'']),
      (''scenario_based'', [PStr ''s1'']), (''troubleshooting'', [PStr ''t1''])]"
proof -
  have ids: "map (\<lambda>(k, qs). (k, map (\<lambda>q. dict_get q ''id'' PNone) qs)) get_fallback_questions =
     [(''warmup'', [PStr ''w1'', PStr ''w2'']), (''core_skills'', [PStr ''c1'', PStr ''c2'']),
      (''scenario_based'', [PStr ''s1'']), (''troubleshooting'', [PStr ''t1''])]"
    by (simp add: get_fallback_questions_def dict_get_def)
  have loaded: "load_question_bank (Loaded data) =
     (case data of
        PDict d \<Rightarrow>
          (case iterate (dict_get d ''questions'' (PList [])) of
             Inl e \<Rightarrow> get_fallback_questions
           | Inr qs \<Rightarrow>
              if \<forall>q \<in> set qs. \<exists>question. q = PDict question
              then [(''warmup'', section_entries ''warmup'' qs),
                    (''core_skills'', section_entries ''core'' qs),
                    (''scenario_based'', section_entries ''scenario'' qs),
                    (''troubleshooting'', section_entries ''troubleshoot'' qs)]
              else get_fallback_questions)
      | _ \<Rightarrow> get_fallback_questions)"
  proof (cases data)
    case (PDict d)
    show ?thesis
    proof (cases "iterate (dict_get d ''questions'' (PList []))")
      case (Inl e)
      then show ?thesis using PDict by (simp add: load_question_bank_def organize_def)
    next
      case (Inr qs)
      show ?thesis
      proof (cases "\<forall>q \<in> set qs. \<exists>question. q = PDict question")
        case True
        then show ?thesis using PDict Inr
          by (simp add: load_question_bank_def organize_def organize_all_objects)
      next
        case False
        then have "\<exists>q \<in> set qs. \<forall>question. q \<noteq> PDict question" by blast
        then have "organize_all qs \<lparr>warmup_list = [], core_skills_list = [],
            scenario_based_list = [], troubleshooting_list = []\<rparr> = Inl AttributeError"
          by (rule organize_all_non_object)
        then show ?thesis using PDict Inr False
          by (auto simp: load_question_bank_def organize_def)
      qed
    qed
  qed (simp_all add: load_question_bank_def organize_def)
  show ?thesis using ids loaded by (simp add: load_question_bank_def)
qed

text \<open>
  A document that is a list, one whose \<^verbatim>\<open>questions\<close> entry is null and one with a
  number among its questions load the six fallback questions; a question without a
  section is organised into the warm-up.
\<close>

theorem fallback_question_bank_witness:
  "load_question_bank (Loaded (PList [])) = get_fallback_questions \<and>
   load_question_bank (Loaded (PDict [(''questions'', PNone)])) = get_fallback_questions \<and>
   load_question_bank (Loaded (PDict [(''questions'', PList [PNum 1])])) = get_fallback_questions \<and>
   load_question_bank (Loaded (PDict [(''questions'', PList [PDict [(''id'', PStr ''q1'')]])])) =
     [(''warmup'', [[(''id'', PStr ''q1'')]]), (''core_skills'', []),
      (''scenario_based'', []), (''troubleshooting'', [])] \<and>
   length (concat (map snd get_fallback_questions)) = 6"
proof -
  have l: "length (concat (map snd get_fallback_questions)) = 6"
    by (simp add: get_fallback_questions_def)
  show ?thesis
    using fallback_question_bank[of "PList []"]
      fallback_question_bank[of "PDict [(''questions'', PNone)]"]
      fallback_question_bank[of "PDict [(''questions'', PList [PNum 1])]"]
      fallback_question_bank[of "PDict [(''questions'', PList [PDict [(''id'', PStr ''q1'')]])]"]
      l
    by (simp add: dict_get_def section_entries_def)
qed

text \<open>
  C3 as stated fails twice: the fallback set has six questions, not four, two of them for
  the warm-up; and a document without the \<^verbatim>\<open>questions\<close> entry does not load the
  fallback set but an empty bank.
\<close>

theorem fallback_question_bank_counterexample:
  "length (concat (map snd (load_question_bank FileNotFound))) \<noteq> 4 \<and>
   length (phase_questions_of (init_agent FileNotFound) WARMUP) \<noteq> 1 \<and>
   load_question_bank (Loaded (PDict [(''other'', PNum 1)])) \<noteq> get_fallback_questions \<and>
   concat (map snd (load_question_bank (Loaded (PDict [(''other'', PNum 1)])))) = []"
  by (simp add: load_question_bank_def get_fallback_questions_def phase_questions_of_def
      init_agent_def organize_def dict_get_def)

subsection \<open>The final report\<close>

lemma agent_attribute_evaluation_model_url:
  "agent_attribute agent ''evaluation_model_url'' = Inl AttributeError"
  by (simp add: agent_attribute_def)

lemma ai_final_report_raises:
  "\<exists>e. ai_final_report env agent state avg_score phase_scores = Inl e"
  by (simp add: ai_final_report_def agent_attribute_evaluation_model_url split: sum.split)

text \<open>
  C9. For every environment, agent, session, average score and per-phase scores,
  \<^verbatim>\<open>_generate_ai_final_report\<close> returns the text of \<^verbatim>\<open>_generate_fallback_report\<close> for
  the same numbers: the attribute \<^verbatim>\<open>evaluation_model_url\<close> does not exist, the exception
  is caught, and the external model is never called.
\<close>

theorem final_report_is_fallback_report:
  "generate_ai_final_report env agent state avg_score phase_scores =
     generate_fallback_report avg_score phase_scores (length (evaluation_scores state))"
proof -
  obtain e where "ai_final_report env agent state avg_score phase_scores = Inl e"
    using ai_final_report_raises by blast
  then show ?thesis by (simp add: generate_ai_final_report_def)
qed

text \<open>
  Even where the external service would answer with a text long enough to be used, the
  report is the structured one.
\<close>

theorem final_report_is_fallback_report_witness:
  "call_ai_model chatty ''report'' (evaluation_url short_agent) = PStr (replicate 60 (CHR ''a'')) \<and>
   generate_ai_final_report chatty short_agent after_turn4 1 [(''core_skills'', [1])] =
     generate_fallback_report 1 [(''core_skills'', [1])] 3"
proof -
  have c: "call_ai_model chatty ''report'' (evaluation_url short_agent)
             = PStr (replicate 60 (CHR ''a''))"
    by (simp add: call_ai_model_def chatty_def dict_get_def)
  have n: "length (evaluation_scores after_turn4) = 3"
    by (simp add: after_turn4_def after_turn3_def after_turn2_def)
  show ?thesis
    using final_report_is_fallback_report[of chatty short_agent after_turn4 1 "[(''core_skills'', [1])]"]
      c n by simp
qed

subsection \<open>The steps of a turn\<close>

lemma add_candidate_message_simps [simp]:
  "current_phase (add_candidate_message state response) = current_phase state"
  "current_question (add_candidate_message state response) = current_question state"
  "conversation_history (add_candidate_message state response) =
     conversation_history state @
       [\<lparr>role = ''candidate'', content = PStr response, phase = current_phase state,
         question_id = PNone, evaluation = None\<rparr>]"
  by (simp_all add: add_candidate_message_def)

lemma evaluate_answer_keeps [simp]:
  "current_phase (state_of (evaluate_answer state response)) = current_phase state"
  "conversation_history (state_of (evaluate_answer state response)) = conversation_history state"
  by (simp_all add: evaluate_answer_def Let_def split: option.split sum.split)

lemma ask_next_question_phase:
  "current_phase (state_of (ask_next_question agent state)) =
     (if current_phase state = GREETING then WARMUP else current_phase state)"
  by (simp add: ask_next_question_def Let_def split: option.split sum.split)

lemma ask_next_question_history:
  "\<exists>asked. conversation_history (state_of (ask_next_question agent state)) =
             conversation_history state @ asked \<and>
           (\<forall>msg \<in> set asked. role msg = ''interviewer'' \<and>
              phase msg = current_phase (state_of (ask_next_question agent state)))"
  by (simp add: ask_next_question_def Let_def split: option.split sum.split)

lemma check_phase_history [simp]:
  "conversation_history (check_phase agent state) = conversation_history state"
  by (simp add: check_phase_def Let_def)

lemma transition_to_next_phase_rank:
  "current_phase state \<noteq> FEEDBACK \<Longrightarrow>
   phase_rank (current_phase state) \<le> phase_rank (transition_to_next_phase agent state) \<and>
   transition_to_next_phase agent state \<noteq> FEEDBACK"
  by (cases "current_phase state") (simp_all add: transition_to_next_phase_def Let_def)

lemma transition_to_next_phase_WRAPUP:
  "current_phase state = WRAPUP \<Longrightarrow> transition_to_next_phase agent state = WRAPUP"
  by (simp add: transition_to_next_phase_def Let_def)

lemma check_phase_rank:
  "current_phase state \<noteq> FEEDBACK \<Longrightarrow>
   phase_rank (current_phase state) \<le> phase_rank (current_phase (check_phase agent state)) \<and>
   current_phase (check_phase agent state) \<noteq> FEEDBACK"
  using transition_to_next_phase_rank[of state agent]
  by (cases "current_phase state") (auto simp: check_phase_def Let_def)

lemma check_phase_WRAPUP:
  "current_phase state = WRAPUP \<Longrightarrow> current_phase (check_phase agent state) = WRAPUP"
  by (simp add: check_phase_def Let_def transition_to_next_phase_WRAPUP)

lemma show_evaluation_phase [simp]:
  "current_phase (show_evaluation env agent state) = current_phase state"
  by (simp add: show_evaluation_def Let_def)

lemma show_evaluation_history:
  "conversation_history (show_evaluation env agent state) =
     conversation_history state @
       (if current_phase state = WRAPUP
        then [\<lparr>role = ''interviewer'',
               content = PStr (generate_ai_final_report env agent state
                  (average_score (evaluation_scores state))
                  (scores_by_phase (evaluation_scores state))),
               phase = WRAPUP, question_id = PNone, evaluation = None\<rparr>]
        else [])"
  by (simp add: show_evaluation_def Let_def)

text \<open>The session after a turn, step by step.\<close>

lemma outcome_cases:
  obtains (returned) s where "out = Returned s" | (raised) e s where "out = Raised e s"
  by (cases out) auto

lemma process_candidate_response_state:
  "state_of (process_candidate_response env agent state response) =
    (let out1 = evaluate_answer (add_candidate_message state response) response
     in case out1 of
          Raised e state1 \<Rightarrow> state1
        | Returned state1 \<Rightarrow>
           (case ask_next_question agent state1 of
              Raised e state2 \<Rightarrow> state2
            | Returned state2 \<Rightarrow>
               (if current_phase state2 \<noteq> GREETING
                then show_evaluation env agent (check_phase agent state2)
                else state2)))"
  by (simp add: process_candidate_response_def Let_def split: outcome.split)

subsection \<open>Phase tags along the transcript\<close>

lemma sorted_map_constant: "\<forall>x \<in> set xs. f x = (c::nat) \<Longrightarrow> sorted (map f xs)"
  by (induction xs) auto

lemma well_tagged_extend:
  assumes "well_tagged state"
    and "conversation_history state' = conversation_history state @ new"
    and "\<forall>msg \<in> set new. phase msg = current_phase state'"
    and "phase_rank (current_phase state) \<le> phase_rank (current_phase state')"
    and "current_phase state' \<noteq> FEEDBACK"
  shows "well_tagged state'"
proof -
  have "sorted (map (phase_rank \<circ> phase) new)"
    using assms(3) by (intro sorted_map_constant[where c = "phase_rank (current_phase state')"]) simp
  then show ?thesis
    using assms unfolding well_tagged_def
    by (auto simp: sorted_append intro: order_trans)
qed

lemma well_tagged_add_candidate_message:
  assumes "well_tagged state"
  shows "well_tagged (add_candidate_message state response)"
proof (rule well_tagged_extend[OF assms])
  show "conversation_history (add_candidate_message state response) =
          conversation_history state @
            [\<lparr>role = ''candidate'', content = PStr response, phase = current_phase state,
              question_id = PNone, evaluation = None\<rparr>]"
    by simp
  show "current_phase (add_candidate_message state response) \<noteq> FEEDBACK"
    using assms by (simp add: well_tagged_def)
qed simp_all

lemma well_tagged_evaluate_answer:
  assumes "well_tagged state"
  shows "well_tagged (state_of (evaluate_answer state response))"
proof (rule well_tagged_extend[OF assms])
  show "conversation_history (state_of (evaluate_answer state response)) =
          conversation_history state @ []"
    by simp
  show "current_phase (state_of (evaluate_answer state response)) \<noteq> FEEDBACK"
    using assms by (simp add: well_tagged_def)
qed simp_all

lemma well_tagged_ask_next_question:
  assumes "well_tagged state"
  shows "well_tagged (state_of (ask_next_question agent state))"
proof -
  obtain asked where a:
    "conversation_history (state_of (ask_next_question agent state)) =
       conversation_history state @ asked"
    "\<forall>msg \<in> set asked. role msg = ''interviewer'' \<and>
       phase msg = current_phase (state_of (ask_next_question agent state))"
    using ask_next_question_history by blast
  show ?thesis
  proof (rule well_tagged_extend[OF assms a(1)])
    show "\<forall>msg \<in> set asked. phase msg = current_phase (state_of (ask_next_question agent state))"
      using a(2) by blast
    show "phase_rank (current_phase state)
            \<le> phase_rank (current_phase (state_of (ask_next_question agent state)))"
      by (simp add: ask_next_question_phase)
    show "current_phase (state_of (ask_next_question agent state)) \<noteq> FEEDBACK"
      using assms by (simp add: ask_next_question_phase well_tagged_def)
  qed
qed

lemma well_tagged_check_phase:
  assumes "well_tagged state"
  shows "well_tagged (check_phase agent state)"
proof -
  have n: "current_phase state \<noteq> FEEDBACK" using assms by (simp add: well_tagged_def)
  show ?thesis
  proof (rule well_tagged_extend[OF assms])
    show "conversation_history (check_phase agent state) = conversation_history state @ []"
      by simp
    show "phase_rank (current_phase state) \<le> phase_rank (current_phase (check_phase agent state))"
      using check_phase_rank[OF n] by blast
    show "current_phase (check_phase agent state) \<noteq> FEEDBACK"
      using check_phase_rank[OF n] by blast
  qed simp
qed

lemma well_tagged_show_evaluation:
  assumes "well_tagged state"
  shows "well_tagged (show_evaluation env agent state)"
proof (rule well_tagged_extend[OF assms show_evaluation_history])
  show "current_phase (show_evaluation env agent state) \<noteq> FEEDBACK"
    using assms by (simp add: well_tagged_def)
qed simp_all

lemma well_tagged_process_candidate_response:
  assumes "well_tagged state"
  shows "well_tagged (state_of (process_candidate_response env agent state response))"
proof -
  let ?s0 = "add_candidate_message state response"
  have w0: "well_tagged ?s0" by (rule well_tagged_add_candidate_message[OF assms])
  have w1: "well_tagged (state_of (evaluate_answer ?s0 response))"
    by (rule well_tagged_evaluate_answer[OF w0])
  show ?thesis
  proof (cases "evaluate_answer ?s0 response")
    case (Raised e s1)
    then show ?thesis using w1 by (simp add: process_candidate_response_def)
  next
    case r1: (Returned s1)
    have w2: "well_tagged (state_of (ask_next_question agent s1))"
      using well_tagged_ask_next_question w1 r1 by simp
    show ?thesis
    proof (cases "ask_next_question agent s1")
      case (Raised e s2)
      then show ?thesis using w2 r1 by (simp add: process_candidate_response_def)
    next
      case r2: (Returned s2)
      have "well_tagged s2" using w2 r2 by simp
      then have "well_tagged (show_evaluation env agent (check_phase agent s2))"
        by (intro well_tagged_show_evaluation well_tagged_check_phase)
      then show ?thesis using r1 r2 \<open>well_tagged s2\<close>
        by (simp add: process_candidate_response_def)
    qed
  qed
qed

lemma reachable_well_tagged: "reachable env agent state \<Longrightarrow> well_tagged state"
proof (induction rule: reachable.induct)
  case (created name now)
  show ?case by (simp add: well_tagged_def new_session_def)
next
  case (started name now)
  show ?case by (simp add: well_tagged_def start_interview_def new_session_def)
next
  case (turn state response)
  then show ?case by (simp add: well_tagged_process_candidate_response)
qed

lemma process_candidate_response_appends:
  "\<exists>new. conversation_history (state_of (process_candidate_response env agent state response))
           = conversation_history state @ new"
proof -
  let ?s0 = "add_candidate_message state response"
  show ?thesis
  proof (cases "evaluate_answer ?s0 response")
    case (Raised e s1)
    then have "conversation_history s1 = conversation_history ?s0"
      using evaluate_answer_keeps(2)[of ?s0 response] by simp
    then show ?thesis using Raised by (simp add: process_candidate_response_def)
  next
    case r1: (Returned s1)
    then have h1: "conversation_history s1 = conversation_history ?s0"
      using evaluate_answer_keeps(2)[of ?s0 response] by simp
    obtain asked where a: "conversation_history (state_of (ask_next_question agent s1)) =
       conversation_history s1 @ asked"
      using ask_next_question_history by blast
    show ?thesis
    proof (cases "ask_next_question agent s1")
      case (Raised e s2)
      then show ?thesis using r1 h1 a by (simp add: process_candidate_response_def)
    next
      case r2: (Returned s2)
      then show ?thesis using r1 h1 a
        by (simp add: process_candidate_response_def show_evaluation_history)
    qed
  qed
qed

lemma ask_next_question_not_GREETING:
  "current_phase (state_of (ask_next_question agent state)) \<noteq> GREETING"
  by (simp add: ask_next_question_phase)

lemma well_tagged_not_WRAPUP:
  assumes "well_tagged state" and "current_phase state \<noteq> WRAPUP"
    and "msg \<in> set (conversation_history state)"
  shows "phase msg \<noteq> WRAPUP"
proof
  assume w: "phase msg = WRAPUP"
  have "phase_rank (phase msg) \<le> phase_rank (current_phase state)"
    using assms(1,3) by (simp add: well_tagged_def)
  moreover have "current_phase state \<noteq> FEEDBACK" using assms(1) by (simp add: well_tagged_def)
  ultimately show False using w assms(2) by (cases "current_phase state") simp_all
qed

text \<open>A turn that starts outside the wrap-up and ends in it.\<close>

lemma entering_WRAPUP:
  assumes wt: "well_tagged state"
    and before: "current_phase state \<noteq> WRAPUP"
    and after: "current_phase (state_of (process_candidate_response env agent state response)) = WRAPUP"
  shows "\<exists>new report.
     conversation_history (state_of (process_candidate_response env agent state response)) =
       conversation_history state @ new @
         [\<lparr>role = ''interviewer'', content = PStr report, phase = WRAPUP,
           question_id = PNone, evaluation = None\<rparr>] \<and>
     (\<forall>msg \<in> set new. phase msg \<noteq> WRAPUP)"
proof -
  let ?s0 = "add_candidate_message state response"
  let ?cand = "\<lparr>role = ''candidate'', content = PStr response, phase = current_phase state,
                 question_id = PNone, evaluation = None\<rparr>"
  show ?thesis
  proof (cases "evaluate_answer ?s0 response")
    case (Raised e s1)
    then have "current_phase s1 = current_phase state"
      using evaluate_answer_keeps(1)[of ?s0 response] by simp
    then show ?thesis using Raised before after by (simp add: process_candidate_response_def)
  next
    case r1: (Returned s1)
    then have p1: "current_phase s1 = current_phase state"
      using evaluate_answer_keeps(1)[of ?s0 response] by simp
    have h1: "conversation_history s1 = conversation_history state @ [?cand]"
      using evaluate_answer_keeps(2)[of ?s0 response] r1 by simp
    obtain asked where a:
      "conversation_history (state_of (ask_next_question agent s1)) =
         conversation_history s1 @ asked"
      "\<forall>msg \<in> set asked. role msg = ''interviewer'' \<and>
         phase msg = current_phase (state_of (ask_next_question agent s1))"
      using ask_next_question_history by blast
    have p2: "current_phase (state_of (ask_next_question agent s1)) \<noteq> WRAPUP"
      using before p1 by (simp add: ask_next_question_phase)
    show ?thesis
    proof (cases "ask_next_question agent s1")
      case (Raised e s2)
      then show ?thesis using r1 p2 after by (simp add: process_candidate_response_def)
    next
      case r2: (Returned s2)
      have g: "current_phase s2 \<noteq> GREETING"
        using ask_next_question_not_GREETING[of agent s1] r2 by simp
      have st: "state_of (process_candidate_response env agent state response) =
                  show_evaluation env agent (check_phase agent s2)"
        using r1 r2 g by (simp add: process_candidate_response_def)
      have w: "current_phase (check_phase agent s2) = WRAPUP"
        using after st by simp
      have h: "conversation_history (show_evaluation env agent (check_phase agent s2)) =
                 conversation_history state @ ([?cand] @ asked) @
                   [\<lparr>role = ''interviewer'',
                     content = PStr (generate_ai_final_report env agent (check_phase agent s2)
                        (average_score (evaluation_scores (check_phase agent s2)))
                        (scores_by_phase (evaluation_scores (check_phase agent s2)))),
                     phase = WRAPUP, question_id = PNone, evaluation = None\<rparr>]"
        using w a(1) h1 r2 by (simp add: show_evaluation_history)
      have "\<forall>msg \<in> set ([?cand] @ asked). phase msg \<noteq> WRAPUP"
        using before a(2) p2 by auto
      then show ?thesis using h st by metis
    qed
  qed
qed

lemma report_appended_on_entry:
  assumes wt: "well_tagged state"
    and before: "current_phase state \<noteq> WRAPUP"
    and after: "current_phase (state_of (process_candidate_response env agent state response)) = WRAPUP"
  shows "(\<exists>report. last (conversation_history (state_of (process_candidate_response env agent state response))) =
               \<lparr>role = ''interviewer'', content = PStr report, phase = WRAPUP,
                question_id = PNone, evaluation = None\<rparr>) \<and>
         filter (\<lambda>msg. phase msg = WRAPUP)
            (conversation_history (state_of (process_candidate_response env agent state response))) =
           [last (conversation_history (state_of (process_candidate_response env agent state response)))]"
proof -
  obtain new report where e:
    "conversation_history (state_of (process_candidate_response env agent state response)) =
       conversation_history state @ new @
         [\<lparr>role = ''interviewer'', content = PStr report, phase = WRAPUP,
           question_id = PNone, evaluation = None\<rparr>]"
    "\<forall>msg \<in> set new. phase msg \<noteq> WRAPUP"
    using entering_WRAPUP[OF wt before after] by blast
  have old: "\<forall>msg \<in> set (conversation_history state). phase msg \<noteq> WRAPUP"
    using well_tagged_not_WRAPUP[OF wt before] by blast
  have f1: "filter (\<lambda>msg. phase msg = WRAPUP) (conversation_history state) = []"
    using old by (simp add: filter_empty_conv)
  have f2: "filter (\<lambda>msg. phase msg = WRAPUP) new = []"
    using e(2) by (simp add: filter_empty_conv)
  show ?thesis using e(1) f1 f2 by auto
qed

lemma check_phase_keeps [simp]:
  "evaluation_scores (check_phase agent state) = evaluation_scores state"
  "current_question (check_phase agent state) = current_question state"
  by (simp_all add: check_phase_def Let_def)

text \<open>A turn that returns and ends in the wrap-up appends the report.\<close>

lemma turn_ending_in_WRAPUP:
  assumes "evaluate_answer (add_candidate_message state response) response = Returned state1"
    and "ask_next_question agent state1 = Returned state2"
    and "current_phase (check_phase agent state2) = WRAPUP"
  shows "state_of (process_candidate_response env agent state response) =
     (check_phase agent state2)
       \<lparr>conversation_history := conversation_history state2 @
          [\<lparr>role = ''interviewer'',
            content = PStr (generate_fallback_report
               (average_score (evaluation_scores state2))
               (scores_by_phase (evaluation_scores state2))
               (length (evaluation_scores state2))),
            phase = WRAPUP, question_id = PNone, evaluation = None\<rparr>]\<rparr>"
proof -
  have g: "current_phase state2 \<noteq> GREETING"
    using ask_next_question_not_GREETING[of agent state1] assms(2) by simp
  obtain e where r: "ai_final_report env agent (check_phase agent state2)
      (average_score (evaluation_scores state2)) (scores_by_phase (evaluation_scores state2)) = Inl e"
    using ai_final_report_raises by blast
  show ?thesis
    using assms g r
    by (simp add: process_candidate_response_def show_evaluation_def Let_def
        generate_ai_final_report_def)
qed

text \<open>A turn taken in the wrap-up appends the answer and another report.\<close>

lemma turn_in_WRAPUP:
  assumes "current_phase state = WRAPUP"
    and "evaluate_answer (add_candidate_message state response) response = Returned state1"
  shows "conversation_history (state_of (process_candidate_response env agent state response)) =
     conversation_history state @
       [\<lparr>role = ''candidate'', content = PStr response, phase = WRAPUP,
         question_id = PNone, evaluation = None\<rparr>,
        \<lparr>role = ''interviewer'',
         content = PStr (generate_fallback_report
            (average_score (evaluation_scores state1))
            (scores_by_phase (evaluation_scores state1))
            (length (evaluation_scores state1))),
         phase = WRAPUP, question_id = PNone, evaluation = None\<rparr>]"
proof -
  have p1: "current_phase state1 = WRAPUP"
    using evaluate_answer_keeps(1)[of "add_candidate_message state response" response] assms
    by simp
  have h1: "conversation_history state1 =
      conversation_history state @
        [\<lparr>role = ''candidate'', content = PStr response, phase = WRAPUP,
          question_id = PNone, evaluation = None\<rparr>]"
    using evaluate_answer_keeps(2)[of "add_candidate_message state response" response] assms
    by simp
  have a: "ask_next_question agent state1 = Returned state1"
    using p1 by (simp add: ask_next_question_def)
  have c: "current_phase (check_phase agent state1) = WRAPUP"
    using p1 by (rule check_phase_WRAPUP)
  show ?thesis
    using turn_ending_in_WRAPUP[OF assms(2) a c, of env] h1 by simp
qed

subsection \<open>A session of four questions\<close>

lemma turn1: "state_of (process_candidate_response offline short_agent (start_interview ''Ada'' 0) ''yes'') = after_turn1"
  by code_simp

lemma turn2: "state_of (process_candidate_response offline short_agent after_turn1 ''daily'') = after_turn2"
  by code_simp

lemma turn3: "state_of (process_candidate_response offline short_agent after_turn2 ''a lookup'') = after_turn3"
  by code_simp

lemma turn4: "state_of (process_candidate_response offline short_agent after_turn3 ''I sort'') = after_turn4"
proof -
  let ?s1 = "state_of (evaluate_answer (add_candidate_message after_turn3 ''I sort'') ''I sort'')"
  let ?s2 = "state_of (ask_next_question short_agent ?s1)"
  have h1: "evaluate_answer (add_candidate_message after_turn3 ''I sort'') ''I sort'' = Returned ?s1"
    by code_simp
  have h2: "ask_next_question short_agent ?s1 = Returned ?s2"
    by code_simp
  have h3: "check_phase short_agent ?s2 = after_turn3
     \<lparr>current_phase := WRAPUP,
      conversation_history := conversation_history after_turn3 @
        [candidate_message TROUBLESHOOTING ''I sort'',
         question_message TROUBLESHOOTING (short_question ''t1'' ''troubleshoot'' ''Why #N/A?'')],
      current_question := Some (short_question ''t1'' ''troubleshoot'' ''Why #N/A?''),
      evaluation_scores := evaluation_scores after_turn3 @
        [\<lparr>entry_question_id = PStr ''s1'', entry_score = 1,
          entry_phase = ''troubleshooting''\<rparr>]\<rparr>"
    by code_simp
  have h4: "conversation_history ?s2 = conversation_history after_turn3 @
        [candidate_message TROUBLESHOOTING ''I sort'',
         question_message TROUBLESHOOTING (short_question ''t1'' ''troubleshoot'' ''Why #N/A?'')]"
    by code_simp
  have h5: "evaluation_scores ?s2 =
     [\<lparr>entry_question_id = PStr ''w1'', entry_score = 1, entry_phase = ''core_skills''\<rparr>,
      \<lparr>entry_question_id = PStr ''c1'', entry_score = 1, entry_phase = ''scenario_based''\<rparr>,
      \<lparr>entry_question_id = PStr ''s1'', entry_score = 1, entry_phase = ''troubleshooting''\<rparr>]"
    by code_simp
  have avg: "average_score
     [\<lparr>entry_question_id = PStr ''w1'', entry_score = 1, entry_phase = ''core_skills''\<rparr>,
      \<lparr>entry_question_id = PStr ''c1'', entry_score = 1, entry_phase = ''scenario_based''\<rparr>,
      \<lparr>entry_question_id = PStr ''s1'', entry_score = 1, entry_phase = ''troubleshooting''\<rparr>] = 1"
    by code_simp
  have sbp: "scores_by_phase
     [\<lparr>entry_question_id = PStr ''w1'', entry_score = 1, entry_phase = ''core_skills''\<rparr>,
      \<lparr>entry_question_id = PStr ''c1'', entry_score = 1, entry_phase = ''scenario_based''\<rparr>,
      \<lparr>entry_question_id = PStr ''s1'', entry_score = 1, entry_phase = ''troubleshooting''\<rparr>] =
     [(''core_skills'', [1]), (''scenario_based'', [1]), (''troubleshooting'', [1])]"
    by code_simp
  have c: "current_phase (check_phase short_agent ?s2) = WRAPUP"
    unfolding h3 by simp
  show ?thesis
    unfolding turn_ending_in_WRAPUP[OF h1 h2 c] h3 h4 h5 avg sbp
    by (simp add: after_turn4_def report_message_def numeral_3_eq_3)
qed

lemma reachable_after_turn3: "reachable offline short_agent after_turn3"
proof -
  have "reachable offline short_agent after_turn1"
    using reachable.turn[OF reachable.started, of offline short_agent "''Ada''" 0 "''yes''"]
    by (simp only: turn1)
  then have "reachable offline short_agent after_turn2"
    using reachable.turn[of offline short_agent after_turn1 "''daily''"] by (simp only: turn2)
  then show ?thesis
    using reachable.turn[of offline short_agent after_turn2 "''a lookup''"] by (simp only: turn3)
qed

lemma reachable_after_turn4: "reachable offline short_agent after_turn4"
  using reachable.turn[OF reachable_after_turn3, of "''I sort''"] by (simp only: turn4)

lemma current_phase_after_turn3: "current_phase after_turn3 = TROUBLESHOOTING"
  by (simp add: after_turn3_def)

lemma current_phase_after_turn4: "current_phase after_turn4 = WRAPUP"
  by (simp add: after_turn4_def)

lemma wrapup_messages_after_turn4:
  "filter (\<lambda>msg. phase msg = WRAPUP) (conversation_history after_turn4) =
     [report_message 1 [(''core_skills'', [1]), (''scenario_based'', [1]),
                        (''troubleshooting'', [1])] 3]"
  by (simp add: after_turn4_def after_turn3_def after_turn2_def after_turn1_def
      start_interview_def new_session_def candidate_message_def question_message_def)
     (simp add: report_message_def)

lemma fifth_call:
  "\<exists>report. conversation_history (state_of
      (process_candidate_response offline short_agent after_turn4 ''thanks'')) =
     conversation_history after_turn4 @
       [candidate_message WRAPUP ''thanks'',
        \<lparr>role = ''interviewer'', content = PStr report, phase = WRAPUP,
         question_id = PNone, evaluation = None\<rparr>]"
proof -
  have "\<exists>state1. evaluate_answer (add_candidate_message after_turn4 ''thanks'') ''thanks''
          = Returned state1"
    by (simp add: evaluate_answer_def add_candidate_message_def after_turn4_def
        short_question_def dict_item_def Let_def)
  then obtain state1 where
    "evaluate_answer (add_candidate_message after_turn4 ''thanks'') ''thanks'' = Returned state1"
    by blast
  from turn_in_WRAPUP[OF current_phase_after_turn4 this, of offline short_agent]
  show ?thesis by (simp add: candidate_message_def)
qed

subsection \<open>The transcript\<close>

text \<open>
  What holds of every reachable session and every call: the transcript after the call is
  the transcript before it followed by new messages, the phase tags along it do not
  decrease, and on the call that enters the wrap-up the report message is appended last
  and is the only message tagged with the wrap-up.
\<close>

lemma transcript_extends_and_stays_sorted:
  assumes "reachable env agent state"
    and "state' = state_of (process_candidate_response env agent state response)"
  shows "(\<exists>new. conversation_history state' = conversation_history state @ new) \<and>
         sorted (map (phase_rank \<circ> phase) (conversation_history state)) \<and>
         sorted (map (phase_rank \<circ> phase) (conversation_history state')) \<and>
         (current_phase state \<noteq> WRAPUP \<and> current_phase state' = WRAPUP \<longrightarrow>
            (\<exists>report. last (conversation_history state') =
               \<lparr>role = ''interviewer'', content = PStr report, phase = WRAPUP,
                question_id = PNone, evaluation = None\<rparr>) \<and>
            filter (\<lambda>msg. phase msg = WRAPUP) (conversation_history state') =
              [last (conversation_history state')])"
proof -
  have wt: "well_tagged state" by (rule reachable_well_tagged[OF assms(1)])
  have wt': "well_tagged state'"
    unfolding assms(2) by (rule well_tagged_process_candidate_response[OF wt])
  have app: "\<exists>new. conversation_history state' = conversation_history state @ new"
    unfolding assms(2) by (rule process_candidate_response_appends)
  have enter: "(\<exists>report. last (conversation_history state') =
               \<lparr>role = ''interviewer'', content = PStr report, phase = WRAPUP,
                question_id = PNone, evaluation = None\<rparr>) \<and>
            filter (\<lambda>msg. phase msg = WRAPUP) (conversation_history state') =
              [last (conversation_history state')]"
    if "current_phase state \<noteq> WRAPUP" and "current_phase state' = WRAPUP"
    using report_appended_on_entry[OF wt that(1), of env agent response] that(2)
    unfolding assms(2) by blast
  show ?thesis
    using wt wt' app enter by (simp add: well_tagged_def)
qed

lemma transcript_after_turn4:
  "(\<exists>new. conversation_history after_turn4 = conversation_history after_turn3 @ new) \<and>
   sorted (map (phase_rank \<circ> phase) (conversation_history after_turn4)) \<and>
   filter (\<lambda>msg. phase msg = WRAPUP) (conversation_history after_turn4) =
     [last (conversation_history after_turn4)]"
  using transcript_extends_and_stays_sorted[OF reachable_after_turn3 turn4[symmetric]]
    current_phase_after_turn3 current_phase_after_turn4
  by simp

text \<open>
  C8, the code at the failing input. The session of four questions is in the wrap-up after
  its fourth turn, with the report as its only message of the wrap-up. After one more call
  of \<^verbatim>\<open>process_candidate_response\<close> the session is still reachable and its transcript is
  still sorted by phase, but the wrap-up holds three messages, two of them reports: the
  report is not single any more.
\<close>

theorem report_not_single_after_wrapup:
  "reachable offline short_agent
     (state_of (process_candidate_response offline short_agent after_turn4 ''thanks'')) \<and>
   map role (filter (\<lambda>msg. phase msg = WRAPUP) (conversation_history after_turn4)) =
     [''interviewer''] \<and>
   sorted (map (phase_rank \<circ> phase) (conversation_history (state_of
     (process_candidate_response offline short_agent after_turn4 ''thanks'')))) \<and>
   map role (filter (\<lambda>msg. phase msg = WRAPUP) (conversation_history (state_of
     (process_candidate_response offline short_agent after_turn4 ''thanks'')))) =
     [''interviewer'', ''candidate'', ''interviewer'']"
proof -
  have r: "reachable offline short_agent
     (state_of (process_candidate_response offline short_agent after_turn4 ''thanks''))"
    by (rule reachable.turn[OF reachable_after_turn4])
  have one: "map role (filter (\<lambda>msg. phase msg = WRAPUP) (conversation_history after_turn4)) =
     [''interviewer'']"
    unfolding wrapup_messages_after_turn4 by (simp add: report_message_def)
  obtain report where h: "conversation_history (state_of
      (process_candidate_response offline short_agent after_turn4 ''thanks'')) =
     conversation_history after_turn4 @
       [candidate_message WRAPUP ''thanks'',
        \<lparr>role = ''interviewer'', content = PStr report, phase = WRAPUP,
         question_id = PNone, evaluation = None\<rparr>]"
    using fifth_call by blast
  have three: "map role (filter (\<lambda>msg. phase msg = WRAPUP) (conversation_history (state_of
     (process_candidate_response offline short_agent after_turn4 ''thanks'')))) =
     [''interviewer'', ''candidate'', ''interviewer'']"
    unfolding h by (simp add: wrapup_messages_after_turn4 report_message_def candidate_message_def)
  have s: "sorted (map (phase_rank \<circ> phase) (conversation_history (state_of
     (process_candidate_response offline short_agent after_turn4 ''thanks''))))"
    using well_tagged_process_candidate_response[OF reachable_well_tagged[OF reachable_after_turn4]]
    by (simp add: well_tagged_def)
  show ?thesis using r one three s by simp
qed

subsection \<open>The phases of a session\<close>

text \<open>
  C10. The current phase of every reachable session is one of greeting, warmup,
  core_skills, scenario_based, troubleshooting and wrapup: no operation assigns
  \<^verbatim>\<open>FEEDBACK\<close>, and \<^verbatim>\<open>_transition_to_next_phase\<close> never returns it. The wrap-up is
  terminal: from it, the transition function returns the wrap-up and a further turn ends
  in the wrap-up.
\<close>

theorem FEEDBACK_unreachable_WRAPUP_terminal:
  assumes "reachable env agent state"
  shows "current_phase state \<in>
           {GREETING, WARMUP, CORE_SKILLS, SCENARIO_BASED, TROUBLESHOOTING, WRAPUP} \<and>
         transition_to_next_phase agent state \<noteq> FEEDBACK \<and>
         (current_phase state = WRAPUP \<longrightarrow>
            transition_to_next_phase agent state = WRAPUP \<and>
            current_phase (state_of (process_candidate_response env agent state response)) = WRAPUP)"
proof -
  have wt: "well_tagged state" by (rule reachable_well_tagged[OF assms])
  then have n: "current_phase state \<noteq> FEEDBACK" by (simp add: well_tagged_def)
  have six: "current_phase state \<in>
           {GREETING, WARMUP, CORE_SKILLS, SCENARIO_BASED, TROUBLESHOOTING, WRAPUP}"
    using n by (cases "current_phase state") simp_all
  have t: "transition_to_next_phase agent state \<noteq> FEEDBACK"
    using transition_to_next_phase_rank[OF n] by blast
  have stay: "current_phase (state_of (process_candidate_response env agent state response)) = WRAPUP"
    if w: "current_phase state = WRAPUP"
  proof -
    let ?s0 = "add_candidate_message state response"
    show ?thesis
    proof (cases "evaluate_answer ?s0 response")
      case (Raised e s1)
      then have "current_phase s1 = current_phase state"
        using evaluate_answer_keeps(1)[of ?s0 response] by simp
      then show ?thesis using Raised w by (simp add: process_candidate_response_def)
    next
      case r1: (Returned s1)
      then have p1: "current_phase s1 = WRAPUP"
        using evaluate_answer_keeps(1)[of ?s0 response] w by simp
      have p2: "current_phase (state_of (ask_next_question agent s1)) = WRAPUP"
        using p1 by (simp add: ask_next_question_phase)
      show ?thesis
      proof (cases "ask_next_question agent s1")
        case (Raised e s2)
        then show ?thesis using r1 p2 by (simp add: process_candidate_response_def)
      next
        case r2: (Returned s2)
        then have "current_phase s2 = WRAPUP" using p2 by simp
        then show ?thesis using r1 r2
          by (simp add: process_candidate_response_def check_phase_WRAPUP)
      qed
    qed
  qed
  show ?thesis using six t stay transition_to_next_phase_WRAPUP by blast
qed

text \<open>
  The session of four questions after its fourth turn is in the wrap-up and stays there.
\<close>

theorem FEEDBACK_unreachable_WRAPUP_terminal_witness:
  "reachable offline short_agent after_turn4 \<and>
   current_phase after_turn4 = WRAPUP \<and>
   transition_to_next_phase short_agent after_turn4 = WRAPUP \<and>
   current_phase (state_of
     (process_candidate_response offline short_agent after_turn4 ''thanks'')) = WRAPUP"
  using FEEDBACK_unreachable_WRAPUP_terminal[OF reachable_after_turn4, of "''thanks''"]
    reachable_after_turn4 current_phase_after_turn4
  by simp

subsection \<open>The ceiling of 18 questions\<close>

text \<open>
  C2. If, when the phase check of \<^verbatim>\<open>process_candidate_response\<close> is reached, at least
  18 interviewer messages outside the greeting are in the transcript and no question is
  pending, the call returns a session in the wrap-up, whatever the question counts of the
  phases are.
\<close>

theorem eighteen_questions_force_WRAPUP:
  assumes "evaluate_answer (add_candidate_message state response) response = Returned state1"
    and "ask_next_question agent state1 = Returned state2"
    and "total_questions_asked state2 \<ge> 18"
    and "current_question state2 = None"
  shows "\<exists>state'. process_candidate_response env agent state response = Returned state' \<and>
           current_phase state' = WRAPUP"
proof -
  have g: "current_phase state2 \<noteq> GREETING"
    using ask_next_question_not_GREETING[of agent state1] assms(2) by simp
  have "current_phase (check_phase agent state2) = WRAPUP"
    using assms(3,4) by (simp add: check_phase_def)
  then show ?thesis using assms(1,2) g by (simp add: process_candidate_response_def)
qed

text \<open>
  A warm-up of 18 questions, all asked: after the answer to the last one the session moves
  to the wrap-up, although the count of the phase alone leads to the core skills.
\<close>

theorem eighteen_questions_force_WRAPUP_witness:
  "total_questions_asked
     (state_of (evaluate_answer (add_candidate_message eighteen_asked ''ok'') ''ok'')) = 18 \<and>
   current_question
     (state_of (evaluate_answer (add_candidate_message eighteen_asked ''ok'') ''ok'')) = None \<and>
   transition_to_next_phase long_agent
     (state_of (evaluate_answer (add_candidate_message eighteen_asked ''ok'') ''ok'')) = CORE_SKILLS \<and>
   (\<exists>state'. process_candidate_response offline long_agent eighteen_asked ''ok'' = Returned state' \<and>
      current_phase state' = WRAPUP)"
proof -
  let ?s1 = "state_of (evaluate_answer (add_candidate_message eighteen_asked ''ok'') ''ok'')"
  have h1: "evaluate_answer (add_candidate_message eighteen_asked ''ok'') ''ok'' = Returned ?s1"
    by code_simp
  have h2: "ask_next_question long_agent ?s1 = Returned ?s1"
    by code_simp
  have n: "total_questions_asked ?s1 = 18"
    by code_simp
  have h3: "total_questions_asked ?s1 \<ge> 18"
    using n by simp
  have h4: "current_question ?s1 = None"
    by code_simp
  have t: "transition_to_next_phase long_agent ?s1 = CORE_SKILLS"
    by code_simp
  show ?thesis
    using eighteen_questions_force_WRAPUP[OF h1 h2 h3 h4, of offline] n h4 t by simp
qed

subsection \<open>The report in the wrap-up\<close>

text \<open>
  C6, the code at the failing input. The session of four questions holds one report
  message when it has entered the wrap-up; a further call of
  \<^verbatim>\<open>process_candidate_response\<close> appends a second one.
\<close>

theorem second_report_in_wrapup:
  "reachable offline short_agent after_turn4 \<and>
   current_phase after_turn4 = WRAPUP \<and>
   length (report_messages after_turn4) = 1 \<and>
   length (report_messages (state_of
     (process_candidate_response offline short_agent after_turn4 ''thanks''))) = 2"
proof -
  have f: "report_messages state =
      filter (\<lambda>msg. role msg = ''interviewer'')
        (filter (\<lambda>msg. phase msg = WRAPUP) (conversation_history state))" for state
    by (simp add: report_messages_def conj_commute)
  have one: "length (report_messages after_turn4) = 1"
    unfolding f wrapup_messages_after_turn4 by (simp add: report_message_def)
  obtain report where h: "conversation_history (state_of
      (process_candidate_response offline short_agent after_turn4 ''thanks'')) =
     conversation_history after_turn4 @
       [candidate_message WRAPUP ''thanks'',
        \<lparr>role = ''interviewer'', content = PStr report, phase = WRAPUP,
         question_id = PNone, evaluation = None\<rparr>]"
    using fifth_call by blast
  have two: "length (report_messages (state_of
     (process_candidate_response offline short_agent after_turn4 ''thanks''))) = 2"
    unfolding f h by (simp add: wrapup_messages_after_turn4 report_message_def candidate_message_def)
  show ?thesis using reachable_after_turn4 current_phase_after_turn4 one two by simp
qed

end
